theory Spec2Isabelle
  imports Main
begin

section \<open>Strings and paths\<close>

text \<open>
  The extension packs the files selected in the editor into one annotated text document
  (\<^verbatim>\<open>pack-for-llm-js/extension.js\<close>). Strings are \<^typ>\<open>string\<close>. A path is the
  list of its components below the filesystem root, so that \<^verbatim>\<open>path.join(dirPath, file)\<close>
  with a name returned by \<^verbatim>\<open>readdirSync\<close> (never empty, never containing a separator)
  is \<open>dirPath @ [file]\<close>.
\<close>

type_synonym path = "string list"

datatype uri = Uri_file (fsPath: path)

text \<open>The textual form of an absolute path, as \<^verbatim>\<open>fileUri.fsPath\<close> prints it (POSIX).\<close>

fun path_string :: "path \<Rightarrow> string" where
  "path_string [] = ''/''"
| "path_string [c] = CHR ''/'' # c"
| "path_string (c # cs) = CHR ''/'' # c @ path_string cs"

definition path_join :: "path \<Rightarrow> string \<Rightarrow> path" where
  "path_join dirPath file = dirPath @ [file]"

text \<open>\<^verbatim>\<open>file.startsWith('.')\<close>\<close>

fun startsWith_dot :: "string \<Rightarrow> bool" where
  "startsWith_dot [] = False"
| "startsWith_dot (c # cs) = (c = CHR ''.'')"

text \<open>
  \<^verbatim>\<open>String.prototype.toLowerCase\<close> on the ASCII letters. The keys of the language table
  are ASCII, and no character outside ASCII lower-cases to a character of one of the
  keys, so the table lookup sees the same result.
\<close>

definition toLowerCase_char :: "char \<Rightarrow> char" where
  "toLowerCase_char c =
     (case map_of (zip ''ABCDEFGHIJKLMNOPQRSTUVWXYZ'' ''abcdefghijklmnopqrstuvwxyz'') c of
        None \<Rightarrow> c
      | Some l \<Rightarrow> l)"

definition toLowerCase :: "string \<Rightarrow> string" where
  "toLowerCase s = map toLowerCase_char s"

subsection \<open>\<^verbatim>\<open>path.extname\<close>\<close>

text \<open>
  \<^verbatim>\<open>path.extname\<close> belongs to the Node library, not to the extension; it is given here
  as the library computes it (POSIX flavour). It scans the path from its last character to
  its first, stopping at the separator that starts the last component. The loop is a
  recursion over the reversed path; the index of a character is the number of characters
  before it, and the library's index \<^verbatim>\<open>-1\<close> (nothing found yet) is \<open>None\<close>. The first
  equation of the separator's case is the loop's \<^verbatim>\<open>break\<close>.
\<close>

record ext_state =
  startDot :: "nat option"
  startPart :: nat
  endIdx :: "nat option"
  matchedSlash :: bool
  preDotState :: int

fun extname_loop :: "string \<Rightarrow> ext_state \<Rightarrow> ext_state" where
  "extname_loop [] s = s"
| "extname_loop (code # rest) s =
     (let i = length rest in
      if code = CHR ''/'' then
        (if \<not> matchedSlash s then s\<lparr>startPart := i + 1\<rparr> else extname_loop rest s)
      else
        (let s1 = (if endIdx s = None
                   then s\<lparr>endIdx := Some (i + 1), matchedSlash := False\<rparr> else s);
             s2 = (if code = CHR ''.'' then
                     (if startDot s1 = None then s1\<lparr>startDot := Some i\<rparr>
                      else if preDotState s1 \<noteq> 1 then s1\<lparr>preDotState := 1\<rparr> else s1)
                   else if startDot s1 \<noteq> None then s1\<lparr>preDotState := - 1\<rparr> else s1)
         in extname_loop rest s2))"

definition extname_init :: ext_state where
  "extname_init =
     \<lparr>startDot = None, startPart = 0, endIdx = None, matchedSlash = True, preDotState = 0\<rparr>"

definition extname :: "string \<Rightarrow> string" where
  "extname p =
     (let s = extname_loop (rev p) extname_init
      in case (startDot s, endIdx s) of
           (Some sd, Some e) \<Rightarrow>
             if preDotState s = 0 \<or> (preDotState s = 1 \<and> sd = e - 1 \<and> sd = startPart s + 1)
             then [] else take (e - sd) (drop sd p)
         | _ \<Rightarrow> [])"

section \<open>The language table\<close>

definition langMap :: "(string \<times> string) list" where
  "langMap =
     [(''.js'', ''javascript''), (''.ts'', ''typescript''), (''.py'', ''python''),
      (''.html'', ''html''), (''.css'', ''css''), (''.json'', ''json''),
      (''.md'', ''markdown''), (''.java'', ''java''), (''.cpp'', ''cpp''), (''.c'', ''c''),
      (''.go'', ''go''), (''.rb'', ''ruby''), (''.php'', ''php''), (''.rs'', ''rust''),
      (''.swift'', ''swift''), (''.sh'', ''shell''), (''.jsx'', ''javascriptreact''),
      (''.tsx'', ''typescriptreact''), (''.vue'', ''vue'')]"

text \<open>\<^verbatim>\<open>langMap[ext] || ''\<close>: a missing key gives \<^verbatim>\<open>undefined\<close>, hence the empty string.\<close>

definition getLanguageId :: "string \<Rightarrow> string" where
  "getLanguageId filePath =
     (let ext = toLowerCase (extname filePath)
      in case map_of langMap ext of None \<Rightarrow> [] | Some lang \<Rightarrow> lang)"
section \<open>Errors\<close>

text \<open>
  What the library calls throw: a system error of \<^verbatim>\<open>fs\<close>, with its code, its system call
  and the path it names; the error of a file too long for a string; a
  \<^verbatim>\<open>RangeError\<close> of the engine (an invalid time value, a string beyond the greatest
  length).
\<close>

datatype errno = ENOENT | EACCES | ENOTDIR | EISDIR

datatype js_error =
    SystemError errno string string
      \<comment> \<open>code, system call, path (empty when the message names none)\<close>
  | StringTooLong nat
  | RangeError string

fun errno_text :: "errno \<Rightarrow> string" where
  "errno_text ENOENT = ''ENOENT: no such file or directory''"
| "errno_text EACCES = ''EACCES: permission denied''"
| "errno_text ENOTDIR = ''ENOTDIR: not a directory''"
| "errno_text EISDIR = ''EISDIR: illegal operation on a directory''"

definition hex_char :: "nat \<Rightarrow> char" where
  "hex_char d = ''0123456789abcdef'' ! d"

fun show_hex :: "nat \<Rightarrow> string" where
  "show_hex n = (if n < 16 then [hex_char n] else show_hex (n div 16) @ [hex_char (n mod 16)])"

declare show_hex.simps [simp del]

definition quoted :: "string \<Rightarrow> string" where
  "quoted p = [CHR 0x27] @ p @ [CHR 0x27]"

text \<open>\<^verbatim>\<open>error.message\<close>\<close>

fun message :: "js_error \<Rightarrow> string" where
  "message (SystemError code syscall p) =
     errno_text code @ '', '' @ syscall @ (if p = [] then [] else '' '' @ quoted p)"
| "message (StringTooLong n) =
     ''Cannot create a string longer than 0x'' @ show_hex n @ '' characters''"
| "message (RangeError m) = m"

text \<open>\<^verbatim>\<open>String(err)\<close>, which a template literal takes: the error's name and its message.\<close>

fun error_string :: "js_error \<Rightarrow> string" where
  "error_string (SystemError code syscall p) = ''Error: '' @ message (SystemError code syscall p)"
| "error_string (StringTooLong n) = ''Error: '' @ message (StringTooLong n)"
| "error_string (RangeError m) = ''RangeError: '' @ m"

section \<open>The filesystem\<close>

text \<open>
  The filesystem is a finite tree (symbolic-link cycles are outside the model). A node
  says what \<^verbatim>\<open>fs.statSync\<close>, \<^verbatim>\<open>fs.readdirSync\<close> and \<^verbatim>\<open>fs.readFileSync\<close> do at its
  path: each of them either returns or throws. A modification time is a \<^verbatim>\<open>Date\<close>: a
  time that \<^verbatim>\<open>toISOString\<close> prints, or the invalid date of a time out of the range of
  \<^verbatim>\<open>Date\<close>, on which \<^verbatim>\<open>toISOString\<close> throws.
\<close>

datatype date = Date string | InvalidDate

fun toISOString :: "date \<Rightarrow> js_error + string" where
  "toISOString (Date isoTime) = Inr isoTime"
| "toISOString InvalidDate = Inl (RangeError ''Invalid time value'')"

datatype fsnode =
    File nat date "errno + string"
      \<comment> \<open>size in bytes, modification time, content or the code of the error of opening it\<close>
  | Dir "(string \<times> fsnode) list"
      \<comment> \<open>a directory and its entries, in the order \<^verbatim>\<open>readdirSync\<close> lists them\<close>
  | DirNoList errno
      \<comment> \<open>a directory that cannot be listed nor searched\<close>
  | NoStat errno
      \<comment> \<open>an entry that \<^verbatim>\<open>statSync\<close> fails on (a dangling link, no search permission)\<close>

record stats =
  isDirectory :: bool
  size_stat :: nat
  mtime :: date

text \<open>
  The calls on the node found at a path; \<open>p\<close> is the path as the error message prints it.
  The time of a directory is never printed.
\<close>

fun stat_node :: "string \<Rightarrow> fsnode \<Rightarrow> js_error + stats" where
  "stat_node p (File sz mt c) = Inr \<lparr>isDirectory = False, size_stat = sz, mtime = mt\<rparr>"
| "stat_node p (Dir es) = Inr \<lparr>isDirectory = True, size_stat = 0, mtime = Date []\<rparr>"
| "stat_node p (DirNoList e) = Inr \<lparr>isDirectory = True, size_stat = 0, mtime = Date []\<rparr>"
| "stat_node p (NoStat e) = Inl (SystemError e ''stat'' p)"

fun readdir_node :: "string \<Rightarrow> fsnode \<Rightarrow> js_error + (string \<times> fsnode) list" where
  "readdir_node p (Dir es) = Inr es"
| "readdir_node p (DirNoList e) = Inl (SystemError e ''scandir'' p)"
| "readdir_node p (File sz mt c) = Inl (SystemError ENOTDIR ''scandir'' p)"
| "readdir_node p (NoStat e) = Inl (SystemError e ''scandir'' p)"

text \<open>
  \<^verbatim>\<open>readFileSync(p, 'utf8')\<close>; \<open>maxLength\<close> is the greatest length of a string of the
  engine, beyond which the file cannot be returned as a string.
\<close>

fun readFile_node :: "nat \<Rightarrow> string \<Rightarrow> fsnode \<Rightarrow> js_error + string" where
  "readFile_node maxLength p (File sz mt (Inl e)) = Inl (SystemError e ''open'' p)"
| "readFile_node maxLength p (File sz mt (Inr content)) =
     (if length content \<le> maxLength then Inr content else Inl (StringTooLong maxLength))"
| "readFile_node maxLength p (Dir es) = Inl (SystemError EISDIR ''read'' [])"
| "readFile_node maxLength p (DirNoList e) = Inl (SystemError EISDIR ''read'' [])"
| "readFile_node maxLength p (NoStat e) = Inl (SystemError e ''open'' p)"

text \<open>
  The node at a path below the root, or the code of the error of walking there: no such
  entry, a file or an unsearchable directory on the way.
\<close>

fun lookup :: "fsnode \<Rightarrow> path \<Rightarrow> errno + fsnode" where
  "lookup n [] = Inr n"
| "lookup (Dir es) (c # cs) =
     (case map_of es c of None \<Rightarrow> Inl ENOENT | Some n \<Rightarrow> lookup n cs)"
| "lookup (File sz mt ct) (c # cs) = Inl ENOTDIR"
| "lookup (DirNoList e) (c # cs) = Inl e"
| "lookup (NoStat e) (c # cs) = Inl e"

definition statSync :: "fsnode \<Rightarrow> path \<Rightarrow> js_error + stats" where
  "statSync root p =
     (case lookup root p of
        Inl code \<Rightarrow> Inl (SystemError code ''stat'' (path_string p))
      | Inr n \<Rightarrow> stat_node (path_string p) n)"

definition readFileSync :: "nat \<Rightarrow> fsnode \<Rightarrow> path \<Rightarrow> js_error + string" where
  "readFileSync maxLength root p =
     (case lookup root p of
        Inl code \<Rightarrow> Inl (SystemError code ''open'' (path_string p))
      | Inr n \<Rightarrow> readFile_node maxLength (path_string p) n)"

section \<open>The resolver\<close>

text \<open>
  \<^verbatim>\<open>getAllFilesFromDir(dirPath, fileList)\<close>. The directory's node stands for what the
  filesystem holds at \<open>dirPath\<close>. \<open>forEach_file\<close> is the body of \<^verbatim>\<open>files.forEach\<close>:
  \<^verbatim>\<open>statSync\<close> runs on every entry, before the test of the name; an exception leaves the
  loop and the function.
\<close>

fun getAllFilesFromDir :: "path \<Rightarrow> fsnode \<Rightarrow> uri list \<Rightarrow> js_error + uri list"
  and forEach_file :: "path \<Rightarrow> (string \<times> fsnode) list \<Rightarrow> uri list \<Rightarrow> js_error + uri list"
where
  "getAllFilesFromDir dirPath (Dir es) fileList = forEach_file dirPath es fileList"
| "getAllFilesFromDir dirPath (DirNoList e) fileList =
     Inl (SystemError e ''scandir'' (path_string dirPath))"
| "getAllFilesFromDir dirPath (File sz mt c) fileList =
     Inl (SystemError ENOTDIR ''scandir'' (path_string dirPath))"
| "getAllFilesFromDir dirPath (NoStat e) fileList =
     Inl (SystemError e ''scandir'' (path_string dirPath))"
| "forEach_file dirPath [] fileList = Inr fileList"
| "forEach_file dirPath ((file, node) # files) fileList =
     (let filePath = path_join dirPath file in
      case stat_node (path_string filePath) node of
        Inl e \<Rightarrow> Inl e
      | Inr stat \<Rightarrow>
          if startsWith_dot file then forEach_file dirPath files fileList
          else if isDirectory stat then
            (case getAllFilesFromDir filePath node fileList of
               Inl e \<Rightarrow> Inl e
             | Inr fileList' \<Rightarrow> forEach_file dirPath files fileList')
          else forEach_file dirPath files (fileList @ [Uri_file filePath]))"

text \<open>
  \<^verbatim>\<open>getFilesFromResources(resources)\<close>: the loop over the entry points, with the
  accumulator \<open>allFiles\<close>.
\<close>

fun resources_loop :: "fsnode \<Rightarrow> uri list \<Rightarrow> uri list \<Rightarrow> js_error + uri list" where
  "resources_loop root [] allFiles = Inr allFiles"
| "resources_loop root (resource # resources) allFiles =
     (case statSync root (fsPath resource) of
        Inl e \<Rightarrow> Inl e
      | Inr stat \<Rightarrow>
          if isDirectory stat then
            (case lookup root (fsPath resource) of
               Inl code \<Rightarrow> Inl (SystemError code ''scandir'' (path_string (fsPath resource)))
             | Inr node \<Rightarrow>
                 (case getAllFilesFromDir (fsPath resource) node [] of
                    Inl e \<Rightarrow> Inl e
                  | Inr dirFiles \<Rightarrow> resources_loop root resources (allFiles @ dirFiles)))
          else resources_loop root resources (allFiles @ [resource]))"

definition getFilesFromResources :: "fsnode \<Rightarrow> uri list \<Rightarrow> js_error + uri list" where
  "getFilesFromResources root resources = resources_loop root resources []"

section \<open>The formatter\<close>

datatype notification =
    ErrorMessage string
  | WarningMessage string
  | InformationMessage string
  | ProgressReport string

text \<open>
  What the formatter reads from its host: the filesystem, the editor's
  \<^verbatim>\<open>workspace.getWorkspaceFolder\<close>, the clock (\<^verbatim>\<open>new Date().toISOString()\<close>, the time of
  a run being always valid) and the greatest length of a string of the engine.
\<close>

record env =
  root :: fsnode
  getWorkspaceFolder :: "uri \<Rightarrow> path option"
  now :: string
  maxLength :: nat

definition newline :: string where
  "newline = [CHR 0x0A]"

definition fence :: string where
  "fence = replicate 3 (CHR 0x60)"

definition dividerLength :: nat where
  "dividerLength = 80"

text \<open>A number in a template literal: its decimal digits.\<close>

definition digit_char :: "nat \<Rightarrow> char" where
  "digit_char d = ''0123456789'' ! d"

fun show_nat :: "nat \<Rightarrow> string" where
  "show_nat n = (if n < 10 then [digit_char n] else show_nat (n div 10) @ [digit_char (n mod 10)])"

declare show_nat.simps [simp del]

text \<open>
  \<^verbatim>\<open>(fileStats.size / 1024).toFixed(1)\<close>. The quotient by 1024 is exact in a double (for
  sizes below \<open>2^53\<close>), and \<^verbatim>\<open>toFixed\<close> takes the nearest tenth, the larger one at a tie.
\<close>

definition size_KB :: "nat \<Rightarrow> string" where
  "size_KB sz =
     (let tenths = (sz * 10 + 512) div 1024
      in show_nat (tenths div 10) @ ''.'' @ [digit_char (tenths mod 10)])"

text \<open>
  \<^verbatim>\<open>path.relative(from, to)\<close> on absolute paths: the common leading components are
  dropped, each component left of \<open>from\<close> is a step up.
\<close>

fun path_relative :: "path \<Rightarrow> path \<Rightarrow> path" where
  "path_relative [] to = to"
| "path_relative (a # as) [] = replicate (length (a # as)) ''..''"
| "path_relative (a # as) (b # bs) =
     (if a = b then path_relative as bs else replicate (length (a # as)) ''..'' @ b # bs)"

fun join_components :: "path \<Rightarrow> string" where
  "join_components [] = []"
| "join_components [c] = c"
| "join_components (c # cs) = c @ CHR ''/'' # join_components cs"

definition relativePath :: "env \<Rightarrow> uri \<Rightarrow> string" where
  "relativePath host fileUri =
     (case getWorkspaceFolder host fileUri of
        Some workspaceFolder \<Rightarrow> join_components (path_relative workspaceFolder (fsPath fileUri))
      | None \<Rightarrow> path_string (fsPath fileUri))"

subsection \<open>Appending to the document\<close>

text \<open>
  \<^verbatim>\<open>packedContent += x\<close>: the engine throws a \<^verbatim>\<open>RangeError\<close> when the string would be
  longer than its greatest length, and \<^verbatim>\<open>packedContent\<close> keeps its value.
\<close>

definition plus_assign :: "nat \<Rightarrow> string \<Rightarrow> string \<Rightarrow> js_error + string" where
  "plus_assign limit packedContent x =
     (if length packedContent + length x \<le> limit then Inr (packedContent @ x)
      else Inl (RangeError ''Invalid string length''))"

text \<open>
  A run of statements \<^verbatim>\<open>packedContent += x\<close>, in their order. Each right-hand side is
  its value, or the error that its evaluation throws. The result is \<^verbatim>\<open>packedContent\<close>
  after the last statement, or as it stands when a statement throws, with that error.
\<close>

fun append_each :: "nat \<Rightarrow> string \<Rightarrow> (js_error + string) list \<Rightarrow> string \<times> js_error option" where
  "append_each limit packedContent [] = (packedContent, None)"
| "append_each limit packedContent (Inl e # rest) = (packedContent, Some e)"
| "append_each limit packedContent (Inr x # rest) =
     (case plus_assign limit packedContent x of
        Inl e \<Rightarrow> (packedContent, Some e)
      | Inr packedContent' \<Rightarrow> append_each limit packedContent' rest)"

text \<open>The title and the summary: the statements of lines 100, 101, 102 and 105.\<close>

definition title_lines :: "env \<Rightarrow> uri list \<Rightarrow> (js_error + string) list" where
  "title_lines host files =
     [Inr (''# Project Files Pack for LLM'' @ newline),
      Inr (''# Total files: '' @ show_nat (length files) @ newline),
      Inr (''# Generated: '' @ now host @ newline @ newline),
      Inr (''## Files included:'' @ newline)]"

text \<open>The table of contents: the first \<^verbatim>\<open>files.forEach\<close>, with its index.\<close>

fun toc_loop :: "env \<Rightarrow> uri list \<Rightarrow> nat \<Rightarrow> string \<Rightarrow> js_error + string" where
  "toc_loop host [] index packedContent = Inr packedContent"
| "toc_loop host (fileUri # files) index packedContent =
     (case plus_assign (maxLength host) packedContent
             (show_nat (index + 1) @ ''. '' @ relativePath host fileUri @ newline) of
        Inl e \<Rightarrow> Inl e
      | Inr packedContent' \<Rightarrow> toc_loop host files (index + 1) packedContent')"

text \<open>
  Everything before the per-file blocks (lines 96 to 111 of the source). These statements
  stand outside any \<^verbatim>\<open>try\<close>: an error leaves \<^verbatim>\<open>packFiles\<close>.
\<close>

definition preamble :: "env \<Rightarrow> uri list \<Rightarrow> js_error + string" where
  "preamble host files =
     (case append_each (maxLength host) [] (title_lines host files) of
        (packedContent, Some e) \<Rightarrow> Inl e
      | (packedContent, None) \<Rightarrow>
          (case toc_loop host files 0 packedContent of
             Inl e \<Rightarrow> Inl e
           | Inr packedContent' \<Rightarrow>
               plus_assign (maxLength host) packedContent'
                 (newline @ replicate dividerLength (CHR ''='') @ newline @ newline)))"

text \<open>
  The statements of the \<^verbatim>\<open>try\<close> after the two reads (lines 125 to 145), for one file.
  The third one prints the modification time, which throws on an invalid date.
\<close>

definition block_statements ::
  "nat \<Rightarrow> nat \<Rightarrow> string \<Rightarrow> string \<Rightarrow> string \<Rightarrow> stats \<Rightarrow> (js_error + string) list"
where
  "block_statements index totalFiles relPath lang content fileStats =
     [Inr (replicate dividerLength (CHR ''#'') @ newline),
      Inr (''# FILE '' @ show_nat (index + 1) @ ''/'' @ show_nat totalFiles @ '': '' @ relPath
           @ newline),
      (case toISOString (mtime fileStats) of
         Inl e \<Rightarrow> Inl e
       | Inr isoTime \<Rightarrow>
           Inr (''# Size: '' @ size_KB (size_stat fileStats) @ '' KB | Last modified: '' @ isoTime
                @ newline))]
     @ (if lang \<noteq> [] then [Inr (''# Language: '' @ lang @ newline)] else [])
     @ [Inr (replicate dividerLength (CHR ''#'') @ newline @ newline)]
     @ (if lang \<noteq> []
        then [Inr (fence @ lang @ newline), Inr content, Inr (newline @ fence @ newline @ newline)]
        else [Inr (content @ newline @ newline)])
     @ [Inr (newline @ replicate dividerLength (CHR ''='') @ newline @ newline)]"

text \<open>
  The second \<^verbatim>\<open>files.forEach\<close>. The state is the document so far and the messages shown
  so far. Whatever the \<^verbatim>\<open>try\<close> throws, a read or a later statement, the \<^verbatim>\<open>catch\<close> shows
  a message and the loop goes on with the document as the throw left it.
\<close>

definition read_error :: "env \<Rightarrow> uri \<Rightarrow> js_error \<Rightarrow> notification" where
  "read_error host fileUri err =
     ErrorMessage (''Error reading file '' @ relativePath host fileUri @ '': '' @ error_string err)"

fun files_loop ::
  "env \<Rightarrow> nat \<Rightarrow> uri list \<Rightarrow> nat \<Rightarrow> string \<times> notification list \<Rightarrow> string \<times> notification list"
where
  "files_loop host totalFiles [] index st = st"
| "files_loop host totalFiles (fileUri # files) index (packedContent, shown) =
     (let filePath = fsPath fileUri;
          lang = getLanguageId (path_string filePath)
      in case readFileSync (maxLength host) (root host) filePath of
           Inl err \<Rightarrow>
             files_loop host totalFiles files (index + 1)
               (packedContent, shown @ [read_error host fileUri err])
         | Inr content \<Rightarrow>
             (case statSync (root host) filePath of
                Inl err \<Rightarrow>
                  files_loop host totalFiles files (index + 1)
                    (packedContent, shown @ [read_error host fileUri err])
              | Inr fileStats \<Rightarrow>
                  (case append_each (maxLength host) packedContent
                          (block_statements index totalFiles (relativePath host fileUri) lang
                             content fileStats) of
                     (packedContent', None) \<Rightarrow>
                       files_loop host totalFiles files (index + 1) (packedContent', shown)
                   | (packedContent', Some err) \<Rightarrow>
                       files_loop host totalFiles files (index + 1)
                         (packedContent', shown @ [read_error host fileUri err]))))"

definition packFiles :: "env \<Rightarrow> uri list \<Rightarrow> js_error + string \<times> notification list" where
  "packFiles host files =
     (case preamble host files of
        Inl e \<Rightarrow> Inl e
      | Inr packedContent \<Rightarrow> Inr (files_loop host (length files) files 0 (packedContent, [])))"

section \<open>The command\<close>

text \<open>
  The handler of \<^verbatim>\<open>extension.packForLlm\<close>, from the point where the editor has settled
  the selection (line 196 of the source). The result is the document handed to the editor,
  if any, and the messages shown. The \<^verbatim>\<open>catch\<close> of the handler takes what the resolution
  or \<^verbatim>\<open>packFiles\<close> throws.
\<close>

definition packForLlm :: "env \<Rightarrow> uri list \<Rightarrow> string option \<times> notification list" where
  "packForLlm host selectedResources =
     (if length selectedResources = 0
      then (None, [WarningMessage ''No files or folders selected to pack.''])
      else
        (case getFilesFromResources (root host) selectedResources of
           Inl error \<Rightarrow>
             (None,
              [ProgressReport ''Processing selected resources...'',
               ErrorMessage (''Error packing files: '' @ message error)])
         | Inr allFiles \<Rightarrow>
             if length allFiles = 0
             then (None,
                   [ProgressReport ''Processing selected resources...'',
                    WarningMessage ''No files found in the selected resources.''])
             else
               (case packFiles host allFiles of
                  Inl error \<Rightarrow>
                    (None,
                     [ProgressReport ''Processing selected resources...'',
                      ProgressReport (''Packing '' @ show_nat (length allFiles) @ '' files...''),
                      ErrorMessage (''Error packing files: '' @ message error)])
                | Inr (content, shown) \<Rightarrow>
                    (Some content,
                     [ProgressReport ''Processing selected resources...'',
                      ProgressReport (''Packing '' @ show_nat (length allFiles) @ '' files...'')]
                     @ shown
                     @ [InformationMessage
                          (''Successfully packed '' @ show_nat (length allFiles)
                           @ '' files.'')]))))"

section \<open>Notions used in the statements\<close>

text \<open>
  A resolved file lies strictly below \<open>dirPath\<close>, and no component below \<open>dirPath\<close>
  (the file's own name included) starts with a dot.
\<close>

definition visible_below :: "path \<Rightarrow> uri \<Rightarrow> bool" where
  "visible_below dirPath u =
     (let p = fsPath u
      in length dirPath < length p \<and> take (length dirPath) p = dirPath
         \<and> list_all (\<lambda>c. \<not> startsWith_dot c) (drop (length dirPath) p))"

text \<open>
  \<open>prune_hidden\<close> empties every hidden directory of a tree, listable or not, at every
  depth, and leaves everything else as it is.
\<close>

fun blank_dir :: "fsnode \<Rightarrow> fsnode" where
  "blank_dir (Dir es) = Dir []"
| "blank_dir (DirNoList e) = Dir []"
| "blank_dir (File sz mt c) = File sz mt c"
| "blank_dir (NoStat e) = NoStat e"

fun prune_hidden :: "fsnode \<Rightarrow> fsnode"
  and prune_entries :: "(string \<times> fsnode) list \<Rightarrow> (string \<times> fsnode) list"
where
  "prune_hidden (Dir es) = Dir (prune_entries es)"
| "prune_hidden (File sz mt c) = File sz mt c"
| "prune_hidden (DirNoList e) = DirNoList e"
| "prune_hidden (NoStat e) = NoStat e"
| "prune_entries [] = []"
| "prune_entries ((name, node) # es) =
     (name, if startsWith_dot name then blank_dir node else prune_hidden node)
     # prune_entries es"

text \<open>
  What the two reads at the head of the formatter's \<^verbatim>\<open>try\<close> obtain for one file: its
  content and its stats, or the error of the first call that throws.
\<close>

definition try_read :: "env \<Rightarrow> uri \<Rightarrow> js_error + string \<times> stats" where
  "try_read host fileUri =
     (case readFileSync (maxLength host) (root host) (fsPath fileUri) of
        Inl err \<Rightarrow> Inl err
      | Inr content \<Rightarrow>
          (case statSync (root host) (fsPath fileUri) of
             Inl err \<Rightarrow> Inl err
           | Inr fileStats \<Rightarrow> Inr (content, fileStats)))"

text \<open>
  An entry point that stops the resolution: nothing at its path or no way there, an entry
  that \<^verbatim>\<open>statSync\<close> fails on, or a directory that cannot be listed.
\<close>

fun node_fails :: "errno + fsnode \<Rightarrow> bool" where
  "node_fails (Inl code) = True"
| "node_fails (Inr (NoStat e)) = True"
| "node_fails (Inr (DirNoList e)) = True"
| "node_fails (Inr (Dir es)) = False"
| "node_fails (Inr (File sz mt c)) = False"

definition entry_fails :: "fsnode \<Rightarrow> uri \<Rightarrow> bool" where
  "entry_fails r resource = node_fails (lookup r (fsPath resource))"

text \<open>Reading a decimal numeral back, to say what number \<open>show_nat\<close> prints.\<close>

definition digit_value :: "char \<Rightarrow> nat" where
  "digit_value c = of_char c - 48"

definition read_nat :: "string \<Rightarrow> nat" where
  "read_nat s = foldl (\<lambda>acc c. 10 * acc + digit_value c) 0 s"

subsection \<open>Lines\<close>

text \<open>
  The lines of a text are what stands between its line feeds (as \<^verbatim>\<open>split('\n')\<close> gives
  them); a text that ends with a line feed has an empty last line. \<open>unlines\<close> ends each
  line of a list with a line feed.
\<close>

fun lines :: "string \<Rightarrow> string list" where
  "lines [] = [[]]"
| "lines (c # cs) =
     (if c = CHR 0x0A then [] # lines cs
      else (case lines cs of [] \<Rightarrow> [[c]] | l # ls \<Rightarrow> (c # l) # ls))"

definition unlines :: "string list \<Rightarrow> string" where
  "unlines ls = concat (map (\<lambda>l. l @ [CHR 0x0A]) ls)"

definition one_line :: "string \<Rightarrow> bool" where
  "one_line s = (CHR 0x0A \<notin> set s)"


subsection \<open>What a run of statements appends\<close>

text \<open>
  The text of the statements that come before the first one whose right-hand side throws,
  and the error of that one, if any.
\<close>

fun emit :: "(js_error + string) list \<Rightarrow> string" where
  "emit [] = []"
| "emit (Inl e # rest) = []"
| "emit (Inr x # rest) = x @ emit rest"

fun thrown :: "(js_error + string) list \<Rightarrow> js_error option" where
  "thrown [] = None"
| "thrown (Inl e # rest) = Some e"
| "thrown (Inr x # rest) = thrown rest"

subsection \<open>The text of a document\<close>

text \<open>
  The document written out, for the files that the formatter is given: the lines of the
  head, the block of a file whose language is known, the block of a file whose language
  is not, and the two lines that are left of a block when the modification time cannot be
  printed.
\<close>

definition hashes :: string where
  "hashes = ''################################################################################''"

definition equals :: string where
  "equals = ''================================================================================''"

definition head_lines :: "env \<Rightarrow> uri list \<Rightarrow> string list" where
  "head_lines host files =
     [''# Project Files Pack for LLM'',
      ''# Total files: '' @ show_nat (length files),
      ''# Generated: '' @ now host,
      [],
      ''## Files included:'']
     @ map (\<lambda>(k, u). show_nat (k + 1) @ ''. '' @ relativePath host u) (enumerate 0 files)
     @ [[], equals, []]"

definition fenced_block ::
  "nat \<Rightarrow> nat \<Rightarrow> string \<Rightarrow> string \<Rightarrow> string \<Rightarrow> string \<Rightarrow> string \<Rightarrow> string"
where
  "fenced_block k n relPath kb isoTime lang content =
     hashes @ ''\<newline>''
     @ ''# FILE '' @ show_nat (k + 1) @ ''/'' @ show_nat n @ '': '' @ relPath @ ''\<newline>''
     @ ''# Size: '' @ kb @ '' KB | Last modified: '' @ isoTime @ ''\<newline>''
     @ ''# Language: '' @ lang @ ''\<newline>''
     @ hashes @ ''\<newline>''
     @ ''\<newline>''
     @ [CHR 0x60, CHR 0x60, CHR 0x60] @ lang @ ''\<newline>''
     @ content @ ''\<newline>''
     @ [CHR 0x60, CHR 0x60, CHR 0x60] @ ''\<newline>''
     @ ''\<newline>''
     @ ''\<newline>''
     @ equals @ ''\<newline>''
     @ ''\<newline>''"

definition plain_block ::
  "nat \<Rightarrow> nat \<Rightarrow> string \<Rightarrow> string \<Rightarrow> string \<Rightarrow> string \<Rightarrow> string"
where
  "plain_block k n relPath kb isoTime content =
     hashes @ ''\<newline>''
     @ ''# FILE '' @ show_nat (k + 1) @ ''/'' @ show_nat n @ '': '' @ relPath @ ''\<newline>''
     @ ''# Size: '' @ kb @ '' KB | Last modified: '' @ isoTime @ ''\<newline>''
     @ hashes @ ''\<newline>''
     @ ''\<newline>''
     @ content @ ''\<newline>''
     @ ''\<newline>''
     @ ''\<newline>''
     @ equals @ ''\<newline>''
     @ ''\<newline>''"

definition cut_block :: "nat \<Rightarrow> nat \<Rightarrow> string \<Rightarrow> string" where
  "cut_block k n relPath =
     hashes @ ''\<newline>''
     @ ''# FILE '' @ show_nat (k + 1) @ ''/'' @ show_nat n @ '': '' @ relPath @ ''\<newline>''"

text \<open>
  What one file, at position \<open>k\<close> of \<open>n\<close>, adds to the document and to the messages when
  no string grows beyond the greatest length.
\<close>

definition emitted :: "env \<Rightarrow> nat \<Rightarrow> nat \<Rightarrow> uri \<Rightarrow> string \<times> notification list" where
  "emitted host n k u =
     (let relPath = relativePath host u; lang = getLanguageId (path_string (fsPath u))
      in case try_read host u of
           Inl e \<Rightarrow>
             ([], [ErrorMessage (''Error reading file '' @ relPath @ '': '' @ error_string e)])
         | Inr (content, fileStats) \<Rightarrow>
             (case mtime fileStats of
                InvalidDate \<Rightarrow>
                  (cut_block k n relPath,
                   [ErrorMessage
                      (''Error reading file '' @ relPath @ '': RangeError: Invalid time value'')])
              | Date isoTime \<Rightarrow>
                  (if lang = []
                   then plain_block k n relPath (size_KB (size_stat fileStats)) isoTime content
                   else fenced_block k n relPath (size_KB (size_stat fileStats)) isoTime lang
                          content,
                   [])))"

definition whole_document :: "env \<Rightarrow> uri list \<Rightarrow> string" where
  "whole_document host files =
     unlines (head_lines host files)
     @ concat (map (\<lambda>(k, u). fst (emitted host (length files) k u)) (enumerate 0 files))"

definition whole_messages :: "env \<Rightarrow> uri list \<Rightarrow> notification list" where
  "whole_messages host files =
     concat (map (\<lambda>(k, u). snd (emitted host (length files) k u)) (enumerate 0 files))"

subsection \<open>An example project\<close>

definition example_sub :: fsnode where
  "example_sub =
     Dir [(''b.js'', File 14 (Date ''2025-03-08T09:30:00.000Z'') (Inr ''let b = 1;'')),
          (''.env'', File 9 (Date ''2025-03-08T09:31:00.000Z'') (Inr ''KEY=1'')),
          (''.git'',
           Dir [(''config'', File 7 (Date ''2025-03-08T09:32:00.000Z'') (Inr ''[core]''))])]"

definition example_root :: fsnode where
  "example_root =
     Dir [(''proj'',
           Dir [(''a.py'', File 2048 (Date ''2025-03-08T09:00:00.000Z'') (Inr ''print(1)'')),
                (''sub'', example_sub),
                (''.hidden.rs'', File 12 (Date ''2025-03-08T09:10:00.000Z'') (Inr ''fn h() {}'')),
                (''secret.txt'', File 5 (Date ''2025-03-08T09:20:00.000Z'') (Inl EACCES)),
                (''lib.Rs'', File 256 (Date ''2025-03-08T09:40:00.000Z'') (Inr ''fn main() {}'')),
                (''notes.xyz'', File 3 (Date ''2025-03-08T09:50:00.000Z'') (Inr ''abc'')),
                (''dots'', Dir [(''.keep'', File 0 (Date ''2025-03-08T09:55:00.000Z'') (Inr []))]),
                (''locked'', DirNoList EACCES),
                (''late.rs'', File 12 InvalidDate (Inr ''fn late() {}'')),
                (''howto.xyz'',
                 File 16 (Date ''2025-03-08T10:05:00.000Z'') (Inr ''# Language: rust'')),
                (''a\<newline>2. b'', File 1 (Date ''2025-03-08T10:10:00.000Z'') (Inr ''x''))])]"

definition example_env :: env where
  "example_env =
     \<lparr>root = example_root,
      getWorkspaceFolder = (\<lambda>u. if take 1 (fsPath u) = [''proj''] then Some [''proj''] else None),
      now = ''2025-03-08T12:00:00.000Z'',
      maxLength = 536870888\<rparr>"


section \<open>Properties of the language lookup\<close>

lemma toLowerCase_char_cases:
  "toLowerCase_char c = c \<or> toLowerCase_char c \<in> set ''abcdefghijklmnopqrstuvwxyz''"
  unfolding toLowerCase_char_def by (simp split: option.split)

lemma toLowerCase_char_slash [simp]: "toLowerCase_char c = CHR ''/'' \<longleftrightarrow> c = CHR ''/''"
  using toLowerCase_char_cases [of c] by (auto simp: toLowerCase_char_def)

lemma toLowerCase_char_dot [simp]: "toLowerCase_char c = CHR ''.'' \<longleftrightarrow> c = CHR ''.''"
  using toLowerCase_char_cases [of c] by (auto simp: toLowerCase_char_def)

lemma toLowerCase_char_idem [simp]:
  "toLowerCase_char (toLowerCase_char c) = toLowerCase_char c"
  unfolding toLowerCase_char_def by (simp split: option.split)

lemma toLowerCase_idem [simp]: "toLowerCase (toLowerCase s) = toLowerCase s"
  by (simp add: toLowerCase_def)

lemma toLowerCase_append [simp]: "toLowerCase (s @ t) = toLowerCase s @ toLowerCase t"
  by (simp add: toLowerCase_def)

text \<open>
  The scan of \<^verbatim>\<open>path.extname\<close> looks at a character only to tell a separator, a dot and
  anything else apart, and lower-casing keeps the three apart.
\<close>

lemma extname_loop_toLowerCase: "extname_loop (toLowerCase xs) s = extname_loop xs s"
proof (induction xs arbitrary: s)
  case Nil
  show ?case by (simp add: toLowerCase_def)
next
  case (Cons c xs)
  have IH: "\<And>s. extname_loop (map toLowerCase_char xs) s = extname_loop xs s"
    using Cons.IH by (simp add: toLowerCase_def)
  show ?case
    by (simp add: toLowerCase_def IH Let_def)
qed

lemma extname_toLowerCase: "extname (toLowerCase p) = toLowerCase (extname p)"
proof -
  have "rev (toLowerCase p) = toLowerCase (rev p)"
    by (simp add: toLowerCase_def rev_map)
  then show ?thesis
    by (simp add: extname_def extname_loop_toLowerCase Let_def split: option.split)
      (simp add: toLowerCase_def take_map drop_map)
qed

lemma getLanguageId_toLowerCase: "getLanguageId (toLowerCase p) = getLanguageId p"
  by (simp add: getLanguageId_def extname_toLowerCase)

lemma getLanguageId_unmapped:
  "toLowerCase (extname p) \<notin> fst ` set langMap \<Longrightarrow> getLanguageId p = []"
  by (simp add: getLanguageId_def map_of_eq_None_iff [THEN iffD2])

lemma getLanguageId_no_extension: "extname p = [] \<Longrightarrow> getLanguageId p = []"
  by (simp add: getLanguageId_def toLowerCase_def langMap_def)

text \<open>
  C10. The lookup of the language is case-insensitive: the extension is lower-cased
  before the table is consulted. A path and the same path with its extension (indeed any
  final part) in lower case have the same identifier, as have any two paths that agree up
  to the case of their letters; a path without an extension, or with an extension that
  the table does not hold, has the empty identifier.
\<close>

theorem getLanguageId_case_insensitive:
  "getLanguageId (stem @ ext) = getLanguageId (stem @ toLowerCase ext)
   \<and> (toLowerCase p = toLowerCase q \<longrightarrow> getLanguageId p = getLanguageId q)
   \<and> (extname p = [] \<longrightarrow> getLanguageId p = [])
   \<and> (toLowerCase (extname p) \<notin> fst ` set langMap \<longrightarrow> getLanguageId p = [])"
proof -
  have "getLanguageId (stem @ ext) = getLanguageId (toLowerCase (stem @ ext))"
    by (simp only: getLanguageId_toLowerCase)
  also have "toLowerCase (stem @ ext) = toLowerCase (stem @ toLowerCase ext)"
    by simp
  also have "getLanguageId \<dots> = getLanguageId (stem @ toLowerCase ext)"
    by (simp only: getLanguageId_toLowerCase)
  finally have a: "getLanguageId (stem @ ext) = getLanguageId (stem @ toLowerCase ext)" .
  have b: "getLanguageId p = getLanguageId q" if "toLowerCase p = toLowerCase q"
    using that getLanguageId_toLowerCase [of p] getLanguageId_toLowerCase [of q] by simp
  from a b show ?thesis
    by (simp add: getLanguageId_unmapped getLanguageId_no_extension)
qed

theorem getLanguageId_case_insensitive_witness:
  "getLanguageId ''MAIN.PY'' = getLanguageId ''MAIN.py''
   \<and> getLanguageId ''MAIN.py'' = ''python''
   \<and> toLowerCase ''/proj/lib.Rs'' = toLowerCase ''/proj/lib.rs''
   \<and> getLanguageId ''/proj/lib.Rs'' = getLanguageId ''/proj/lib.rs''
   \<and> getLanguageId ''/proj/lib.rs'' = ''rust''
   \<and> extname ''/proj/Makefile'' = [] \<and> getLanguageId ''/proj/Makefile'' = []
   \<and> toLowerCase (extname ''/proj/notes.xyz'') \<notin> fst ` set langMap
   \<and> getLanguageId ''/proj/notes.xyz'' = []"
proof -
  have h1: "toLowerCase ''/proj/lib.Rs'' = toLowerCase ''/proj/lib.rs''"
    by code_simp
  have h2: "extname ''/proj/Makefile'' = []"
    by code_simp
  have h3: "toLowerCase (extname ''/proj/notes.xyz'') \<notin> fst ` set langMap"
    by code_simp
  have e1: "toLowerCase ''.PY'' = ''.py''"
    by code_simp
  have e2: "getLanguageId ''MAIN.py'' = ''python''"
    by code_simp
  have e3: "getLanguageId ''/proj/lib.rs'' = ''rust''"
    by code_simp
  note T1 = getLanguageId_case_insensitive
    [of "''MAIN''" "''.PY''" "''/proj/lib.Rs''" "''/proj/lib.rs''"]
  note T2 = getLanguageId_case_insensitive [of "[]" "[]" "''/proj/Makefile''" "[]"]
  note T3 = getLanguageId_case_insensitive [of "[]" "[]" "''/proj/notes.xyz''" "[]"]
  have "getLanguageId (''MAIN'' @ ''.PY'') = getLanguageId (''MAIN'' @ toLowerCase ''.PY'')"
    by (rule T1 [THEN conjunct1])
  then have c1: "getLanguageId ''MAIN.PY'' = getLanguageId ''MAIN.py''"
    by (simp only: e1 append.simps)
  have c2: "getLanguageId ''/proj/lib.Rs'' = getLanguageId ''/proj/lib.rs''"
    using T1 [THEN conjunct2, THEN conjunct1] h1 by (rule mp)
  have c3: "getLanguageId ''/proj/Makefile'' = []"
    using T2 [THEN conjunct2, THEN conjunct2, THEN conjunct1] h2 by (rule mp)
  have c4: "getLanguageId ''/proj/notes.xyz'' = []"
    using T3 [THEN conjunct2, THEN conjunct2, THEN conjunct2] h3 by (rule mp)
  show ?thesis
    using c1 e2 h1 c2 e3 h2 c3 h3 c4 by (intro conjI)
qed

section \<open>The traversal of a directory\<close>

text \<open>
  The definition of \<open>getAllFilesFromDir\<close> by cases on the node is the source's
  \<^verbatim>\<open>readdirSync\<close> followed by the loop.
\<close>

lemma getAllFilesFromDir_readdir:
  "getAllFilesFromDir dirPath node fileList =
     (case readdir_node (path_string dirPath) node of
        Inl e \<Rightarrow> Inl e
      | Inr files \<Rightarrow> forEach_file dirPath files fileList)"
  by (cases node) simp_all

text \<open>
  The node that the loop examines for an entry is the node that the filesystem holds at
  the joined path, which is what \<^verbatim>\<open>statSync(filePath)\<close> sees.
\<close>

lemma lookup_append:
  "lookup r (p @ q) = (case lookup r p of Inl e \<Rightarrow> Inl e | Inr n \<Rightarrow> lookup n q)"
proof (induction r p rule: lookup.induct)
  case (1 n)
  show ?case by simp
next
  case (2 es c cs)
  then show ?case
    by (cases "map_of es c") simp_all
qed simp_all

lemma lookup_path_join:
  assumes "lookup r dirPath = Inr (Dir es)" "distinct (map fst es)" "(name, node) \<in> set es"
  shows "lookup r (path_join dirPath name) = Inr node"
  using assms by (simp add: path_join_def lookup_append)

lemma visible_below_step:
  assumes "\<not> startsWith_dot name" "visible_below (path_join dirPath name) u"
  shows "visible_below dirPath u"
proof -
  obtain p where u: "u = Uri_file p" by (cases u)
  from assms(2) have len: "length dirPath + 1 < length p"
    and tk: "take (length dirPath + 1) p = dirPath @ [name]"
    and rest: "list_all (\<lambda>c. \<not> startsWith_dot c) (drop (length dirPath + 1) p)"
    by (simp_all add: visible_below_def path_join_def u Let_def)
  from tk have "take (length dirPath) (take (length dirPath + 1) p)
      = take (length dirPath) (dirPath @ [name])"
    by simp
  then have tk': "take (length dirPath) p = dirPath" by simp
  from tk len have "p ! length dirPath = name"
    by (metis add.commute less_add_one nth_append_length nth_take plus_1_eq_Suc)
  with len have "drop (length dirPath) p = name # drop (length dirPath + 1) p"
    by (metis Cons_nth_drop_Suc Suc_eq_plus1 Suc_lessD)
  with rest assms(1) have "list_all (\<lambda>c. \<not> startsWith_dot c) (drop (length dirPath) p)"
    by simp
  with tk' len show ?thesis
    by (simp add: visible_below_def u Let_def)
qed

lemma visible_below_file:
  "\<not> startsWith_dot name \<Longrightarrow> visible_below dirPath (Uri_file (path_join dirPath name))"
  by (simp add: visible_below_def path_join_def)

text \<open>
  The traversal only appends to the list it was given, and what it appends lies below
  the directory on a path without a hidden component.
\<close>

lemma traversal_visible:
  "getAllFilesFromDir dirPath node fileList = Inr out \<Longrightarrow>
     \<exists>new. out = fileList @ new \<and> (\<forall>u\<in>set new. visible_below dirPath u)"
  "forEach_file dirPath es fileList = Inr out \<Longrightarrow>
     \<exists>new. out = fileList @ new \<and> (\<forall>u\<in>set new. visible_below dirPath u)"
proof (induction dirPath node fileList and dirPath es fileList arbitrary: out and out
    rule: getAllFilesFromDir_forEach_file.induct)
  case (6 dirPath name node files fileList)
  from "6.prems" obtain stat where
    st: "stat_node (path_string (path_join dirPath name)) node = Inr stat"
    by (auto simp: Let_def split: sum.splits)
  show ?case
  proof (cases "startsWith_dot name")
    case True
    with "6.prems" st have "forEach_file dirPath files fileList = Inr out"
      by (simp add: Let_def)
    with "6.IH"(1) [OF refl st True] show ?thesis .
  next
    case hid: False
    show ?thesis
    proof (cases "isDirectory stat")
      case True
      with "6.prems" st hid obtain fl' where
        sub: "getAllFilesFromDir (path_join dirPath name) node fileList = Inr fl'"
        and rest: "forEach_file dirPath files fl' = Inr out"
        by (auto simp: Let_def split: sum.splits)
      from "6.IH"(2) [OF refl st hid True sub] obtain new1 where
        n1: "fl' = fileList @ new1" "\<forall>u\<in>set new1. visible_below (path_join dirPath name) u"
        by blast
      from "6.IH"(3) [OF refl st hid True sub rest] obtain new2 where
        n2: "out = fl' @ new2" "\<forall>u\<in>set new2. visible_below dirPath u"
        by blast
      from n1(2) hid have "\<forall>u\<in>set new1. visible_below dirPath u"
        by (blast intro: visible_below_step)
      with n1(1) n2 have "out = fileList @ (new1 @ new2)
          \<and> (\<forall>u\<in>set (new1 @ new2). visible_below dirPath u)"
        by auto
      then show ?thesis by blast
    next
      case False
      with "6.prems" st hid have
        rest: "forEach_file dirPath files (fileList @ [Uri_file (path_join dirPath name)]) = Inr out"
        by (simp add: Let_def)
      from "6.IH"(4) [OF refl st hid False rest] obtain new2 where
        n2: "out = (fileList @ [Uri_file (path_join dirPath name)]) @ new2"
          "\<forall>u\<in>set new2. visible_below dirPath u"
        by blast
      with hid have "out = fileList @ (Uri_file (path_join dirPath name) # new2)
          \<and> (\<forall>u\<in>set (Uri_file (path_join dirPath name) # new2). visible_below dirPath u)"
        by (simp add: visible_below_file)
      then show ?thesis by blast
    qed
  qed
qed auto

lemma blank_dir_stat: "stat_node p (blank_dir n) = stat_node p n"
  by (cases n) simp_all

lemma prune_hidden_stat: "stat_node p (prune_hidden n) = stat_node p n"
  by (cases n) simp_all

text \<open>
  Emptying the hidden directories changes nothing, neither the list nor an error: the
  traversal never lists a hidden directory.
\<close>

lemma traversal_prune:
  "getAllFilesFromDir dirPath (prune_hidden node) fileList
     = getAllFilesFromDir dirPath node fileList"
  "forEach_file dirPath (prune_entries es) fileList = forEach_file dirPath es fileList"
proof (induction dirPath node fileList and dirPath es fileList
    rule: getAllFilesFromDir_forEach_file.induct)
  case (6 dirPath name node files fileList)
  show ?case
    using "6.IH"
    by (auto simp: Let_def blank_dir_stat prune_hidden_stat split: sum.splits)
qed auto

lemma statSync_lookup:
  "statSync r p = Inr st \<Longrightarrow>
     \<exists>node. lookup r p = Inr node \<and> stat_node (path_string p) node = Inr st"
  by (auto simp: statSync_def split: sum.splits)

lemma resolve_directory:
  assumes "statSync r (fsPath resource) = Inr st" "isDirectory st"
    and "getFilesFromResources r [resource] = Inr files"
  shows "\<exists>node. lookup r (fsPath resource) = Inr node
           \<and> getAllFilesFromDir (fsPath resource) node [] = Inr files"
proof -
  from statSync_lookup [OF assms(1)] obtain node where
    n: "lookup r (fsPath resource) = Inr node" by blast
  with assms show ?thesis
    by (auto simp: getFilesFromResources_def split: sum.splits)
qed

text \<open>
  C1. For a directory, the traversal returns only files below it on paths none of whose
  components below the directory (the file's name included) starts with a dot, and the
  result, list or error, does not depend on what the hidden subdirectories contain: they
  are never listed. The same holds for the resolution of a directory entry point.
\<close>

theorem hidden_entries_pruned:
  "getAllFilesFromDir dirPath (prune_hidden node) fileList
     = getAllFilesFromDir dirPath node fileList
   \<and> (getAllFilesFromDir dirPath node fileList = Inr out \<longrightarrow>
        (\<exists>new. out = fileList @ new \<and> (\<forall>u\<in>set new. visible_below dirPath u)))
   \<and> (statSync r (fsPath resource) = Inr st \<and> isDirectory st
        \<and> getFilesFromResources r [resource] = Inr files \<longrightarrow>
        (\<forall>u\<in>set files. visible_below (fsPath resource) u))"
proof (intro conjI impI)
  show "getAllFilesFromDir dirPath (prune_hidden node) fileList
      = getAllFilesFromDir dirPath node fileList"
    by (rule traversal_prune(1))
next
  assume "getAllFilesFromDir dirPath node fileList = Inr out"
  then show "\<exists>new. out = fileList @ new \<and> (\<forall>u\<in>set new. visible_below dirPath u)"
    by (rule traversal_visible(1))
next
  assume a: "statSync r (fsPath resource) = Inr st \<and> isDirectory st
      \<and> getFilesFromResources r [resource] = Inr files"
  then obtain node where "getAllFilesFromDir (fsPath resource) node [] = Inr files"
    using resolve_directory [of r resource st files] by blast
  from traversal_visible(1) [OF this]
  show "\<forall>u\<in>set files. visible_below (fsPath resource) u"
    by simp
qed

theorem hidden_entries_pruned_witness:
  "getAllFilesFromDir [''proj'', ''sub''] example_sub []
     = Inr [Uri_file [''proj'', ''sub'', ''b.js'']]
   \<and> getAllFilesFromDir [''proj'', ''sub''] (prune_hidden example_sub) []
     = Inr [Uri_file [''proj'', ''sub'', ''b.js'']]
   \<and> prune_hidden example_sub \<noteq> example_sub
   \<and> statSync example_root [''proj'', ''sub''] = Inr \<lparr>isDirectory = True, size_stat = 0, mtime = Date []\<rparr>
   \<and> getFilesFromResources example_root [Uri_file [''proj'', ''sub'']]
     = Inr [Uri_file [''proj'', ''sub'', ''b.js'']]
   \<and> visible_below [''proj'', ''sub''] (Uri_file [''proj'', ''sub'', ''b.js''])"
proof -
  let ?d = "[''proj'', ''sub'']"
  let ?out = "[Uri_file [''proj'', ''sub'', ''b.js'']]"
  let ?st = "\<lparr>isDirectory = True, size_stat = 0, mtime = Date []\<rparr>"
  have h1: "getAllFilesFromDir ?d example_sub [] = Inr ?out"
    by code_simp
  have h2: "prune_hidden example_sub \<noteq> example_sub"
    by code_simp
  have h3: "statSync example_root (fsPath (Uri_file ?d)) = Inr ?st \<and> isDirectory ?st
      \<and> getFilesFromResources example_root [Uri_file ?d] = Inr ?out"
    by code_simp
  have h4: "statSync example_root [''proj'', ''sub''] = Inr ?st"
    by code_simp
  note T = hidden_entries_pruned
    [of ?d example_sub "[]" ?out example_root "Uri_file ?d" ?st ?out]
  from T [THEN conjunct1] h1
  have c1: "getAllFilesFromDir ?d (prune_hidden example_sub) [] = Inr ?out"
    by (rule trans)
  from T [THEN conjunct2, THEN conjunct2] h3
  have c2: "\<forall>u\<in>set ?out. visible_below (fsPath (Uri_file ?d)) u"
    by (rule mp)
  then have c3: "visible_below ?d (Uri_file [''proj'', ''sub'', ''b.js''])"
    by simp
  from h3 have h5: "getFilesFromResources example_root [Uri_file ?d] = Inr ?out"
    by (elim conjE)
  show ?thesis
    using h1 c1 h2 h4 h5 c3 by (intro conjI)
qed

section \<open>The resolution of the entry points\<close>

lemma resources_loop_Cons:
  "resources_loop r (resource # resources) allFiles =
     (case resources_loop r [resource] [] of
        Inl e \<Rightarrow> Inl e
      | Inr fl \<Rightarrow> resources_loop r resources (allFiles @ fl))"
  by (simp split: sum.splits option.splits)

lemma resources_loop_acc:
  "resources_loop r resources allFiles =
     (case resources_loop r resources [] of
        Inl e \<Rightarrow> Inl e
      | Inr fl \<Rightarrow> Inr (allFiles @ fl))"
proof (induction resources arbitrary: allFiles)
  case Nil
  show ?case by simp
next
  case (Cons resource resources)
  show ?case
  proof (cases "resources_loop r [resource] []")
    case (Inl e)
    then show ?thesis
      by (simp only: resources_loop_Cons [of r resource resources] sum.case)
  next
    case (Inr fl)
    have "resources_loop r (resource # resources) allFiles
        = resources_loop r resources (allFiles @ fl)"
      by (simp only: resources_loop_Cons [of r resource resources] Inr sum.case)
    also have "\<dots> = (case resources_loop r resources [] of
        Inl e \<Rightarrow> Inl e | Inr fl2 \<Rightarrow> Inr ((allFiles @ fl) @ fl2))"
      by (rule Cons.IH)
    finally have lhs: "resources_loop r (resource # resources) allFiles
        = (case resources_loop r resources [] of
             Inl e \<Rightarrow> Inl e | Inr fl2 \<Rightarrow> Inr (allFiles @ fl @ fl2))"
      by (simp only: append_assoc)
    have "resources_loop r (resource # resources) [] = resources_loop r resources ([] @ fl)"
      by (simp only: resources_loop_Cons [of r resource resources] Inr sum.case)
    also have "\<dots> = (case resources_loop r resources [] of
        Inl e \<Rightarrow> Inl e | Inr fl2 \<Rightarrow> Inr (([] @ fl) @ fl2))"
      by (rule Cons.IH)
    finally have rhs: "resources_loop r (resource # resources) []
        = (case resources_loop r resources [] of
             Inl e \<Rightarrow> Inl e | Inr fl2 \<Rightarrow> Inr (fl @ fl2))"
      by (simp only: append_Nil)
    show ?thesis
      unfolding lhs rhs by (cases "resources_loop r resources []") simp_all
  qed
qed

lemma getFilesFromResources_Nil: "getFilesFromResources r [] = Inr []"
  by (simp add: getFilesFromResources_def)

lemma getFilesFromResources_Cons:
  "getFilesFromResources r (resource # resources) =
     (case getFilesFromResources r [resource] of
        Inl e \<Rightarrow> Inl e
      | Inr f1 \<Rightarrow>
          (case getFilesFromResources r resources of
             Inl e \<Rightarrow> Inl e
           | Inr f2 \<Rightarrow> Inr (f1 @ f2)))"
proof (cases "resources_loop r [resource] []")
  case (Inl e)
  then show ?thesis
    unfolding getFilesFromResources_def
    by (simp only: resources_loop_Cons [of r resource resources] sum.case)
next
  case (Inr f1)
  have "resources_loop r (resource # resources) [] = resources_loop r resources ([] @ f1)"
    by (simp only: resources_loop_Cons [of r resource resources] Inr sum.case)
  also have "\<dots> = (case resources_loop r resources [] of
      Inl e \<Rightarrow> Inl e | Inr f2 \<Rightarrow> Inr (([] @ f1) @ f2))"
    by (rule resources_loop_acc)
  finally show ?thesis
    unfolding getFilesFromResources_def by (simp only: Inr sum.case append_Nil)
qed

lemma getFilesFromResources_append:
  "getFilesFromResources r (rs1 @ rs2) =
     (case getFilesFromResources r rs1 of
        Inl e \<Rightarrow> Inl e
      | Inr f1 \<Rightarrow>
          (case getFilesFromResources r rs2 of
             Inl e \<Rightarrow> Inl e
           | Inr f2 \<Rightarrow> Inr (f1 @ f2)))"
proof (induction rs1)
  case Nil
  show ?case by (simp add: getFilesFromResources_Nil split: sum.splits)
next
  case (Cons resource rs1)
  show ?case
    by (simp add: getFilesFromResources_Cons [of r resource "rs1 @ rs2"]
        getFilesFromResources_Cons [of r resource rs1] Cons.IH split: sum.splits)
qed

lemma getFilesFromResources_concat:
  "getFilesFromResources r resources = Inr files \<Longrightarrow>
     files = concat (map (\<lambda>resource.
               case getFilesFromResources r [resource] of Inl e \<Rightarrow> [] | Inr fl \<Rightarrow> fl)
             resources)"
proof (induction resources arbitrary: files)
  case Nil
  then show ?case by (simp add: getFilesFromResources_Nil)
next
  case (Cons resource resources)
  from Cons.prems obtain f1 f2 where
    f1: "getFilesFromResources r [resource] = Inr f1"
    and f2: "getFilesFromResources r resources = Inr f2"
    and files: "files = f1 @ f2"
    by (auto simp: getFilesFromResources_Cons [of r resource resources] split: sum.splits)
  from Cons.IH [OF f2] f1 files show ?case
    by simp
qed

text \<open>
  The example project: a file and a directory that holds a file, a hidden file and a
  hidden directory resolve to the two visible files.
\<close>

lemma example_resolution:
  "getFilesFromResources example_root [Uri_file [''proj'', ''a.py''], Uri_file [''proj'', ''sub'']]
     = Inr [Uri_file [''proj'', ''a.py''], Uri_file [''proj'', ''sub'', ''b.js'']]"
  by code_simp

text \<open>
  C8. The resolved list is the concatenation, in the order of the entry points, of what
  each entry point resolves to on its own; nothing is removed, so a file that two entry
  points reach appears once for each of them.
\<close>

theorem resolution_concatenates:
  "getFilesFromResources r (rs1 @ rs2) =
     (case getFilesFromResources r rs1 of
        Inl e \<Rightarrow> Inl e
      | Inr f1 \<Rightarrow>
          (case getFilesFromResources r rs2 of
             Inl e \<Rightarrow> Inl e
           | Inr f2 \<Rightarrow> Inr (f1 @ f2)))
   \<and> (getFilesFromResources r resources = Inr files \<longrightarrow>
        files = concat (map (\<lambda>resource.
                  case getFilesFromResources r [resource] of Inl e \<Rightarrow> [] | Inr fl \<Rightarrow> fl)
                resources))"
  using getFilesFromResources_append [of r rs1 rs2]
    getFilesFromResources_concat [of r resources files]
  by blast

theorem resolution_concatenates_witness:
  "getFilesFromResources example_root
       [Uri_file [''proj'', ''sub''], Uri_file [''proj'', ''sub'', ''b.js'']]
     = Inr [Uri_file [''proj'', ''sub'', ''b.js''], Uri_file [''proj'', ''sub'', ''b.js'']]
   \<and> getFilesFromResources example_root [Uri_file [''proj'', ''sub'']]
     = Inr [Uri_file [''proj'', ''sub'', ''b.js'']]
   \<and> getFilesFromResources example_root [Uri_file [''proj'', ''sub'', ''b.js'']]
     = Inr [Uri_file [''proj'', ''sub'', ''b.js'']]
   \<and> [Uri_file [''proj'', ''sub'', ''b.js''], Uri_file [''proj'', ''sub'', ''b.js'']]
     = concat (map (\<lambda>resource.
         case getFilesFromResources example_root [resource] of Inl e \<Rightarrow> [] | Inr fl \<Rightarrow> fl)
       [Uri_file [''proj'', ''sub''], Uri_file [''proj'', ''sub'', ''b.js'']])"
proof -
  let ?d = "Uri_file [''proj'', ''sub'']"
  let ?f = "Uri_file [''proj'', ''sub'', ''b.js'']"
  have h: "getFilesFromResources example_root [?d, ?f] = Inr [?f, ?f]"
    by code_simp
  have h1: "getFilesFromResources example_root [?d] = Inr [?f]"
    by code_simp
  have h2: "getFilesFromResources example_root [?f] = Inr [?f]"
    by code_simp
  from resolution_concatenates [of example_root "[]" "[]" "[?d, ?f]" "[?f, ?f]",
      THEN conjunct2] h
  have c: "[?f, ?f] = concat (map (\<lambda>resource.
      case getFilesFromResources example_root [resource] of Inl e \<Rightarrow> [] | Inr fl \<Rightarrow> fl)
      [?d, ?f])"
    by (rule mp)
  show ?thesis
    using h h1 h2 c by (intro conjI)
qed

lemma resolve_regular_file:
  "statSync r (fsPath resource) = Inr st \<Longrightarrow> \<not> isDirectory st \<Longrightarrow>
     getFilesFromResources r [resource] = Inr [resource]"
  by (simp add: getFilesFromResources_def)

text \<open>
  C4. An entry point that is a regular file is appended as it is, whatever its name: the
  test of the leading dot is made on the entries of a directory only. Selected with
  other entry points, the file stands in the resolved list at its place.
\<close>

theorem selected_file_is_appended:
  "statSync r (fsPath resource) = Inr st \<and> \<not> isDirectory st \<longrightarrow>
     getFilesFromResources r [resource] = Inr [resource]
     \<and> getFilesFromResources r (rs1 @ resource # rs2) =
         (case getFilesFromResources r rs1 of
            Inl e \<Rightarrow> Inl e
          | Inr f1 \<Rightarrow>
              (case getFilesFromResources r rs2 of
                 Inl e \<Rightarrow> Inl e
               | Inr f2 \<Rightarrow> Inr (f1 @ resource # f2)))"
proof (intro impI, elim conjE)
  assume st: "statSync r (fsPath resource) = Inr st" and nd: "\<not> isDirectory st"
  have one: "getFilesFromResources r [resource] = Inr [resource]"
    using st nd by (rule resolve_regular_file)
  have "getFilesFromResources r (resource # rs2) =
      (case getFilesFromResources r rs2 of Inl e \<Rightarrow> Inl e | Inr f2 \<Rightarrow> Inr (resource # f2))"
    by (simp add: getFilesFromResources_Cons [of r resource rs2] one split: sum.splits)
  then have "getFilesFromResources r (rs1 @ resource # rs2) =
      (case getFilesFromResources r rs1 of
         Inl e \<Rightarrow> Inl e
       | Inr f1 \<Rightarrow>
           (case getFilesFromResources r rs2 of
              Inl e \<Rightarrow> Inl e
            | Inr f2 \<Rightarrow> Inr (f1 @ resource # f2)))"
    by (simp add: getFilesFromResources_append [of r rs1 "resource # rs2"] split: sum.splits)
  with one show "getFilesFromResources r [resource] = Inr [resource]
     \<and> getFilesFromResources r (rs1 @ resource # rs2) =
         (case getFilesFromResources r rs1 of
            Inl e \<Rightarrow> Inl e
          | Inr f1 \<Rightarrow>
              (case getFilesFromResources r rs2 of
                 Inl e \<Rightarrow> Inl e
               | Inr f2 \<Rightarrow> Inr (f1 @ resource # f2)))"
    by (rule conjI)
qed

theorem selected_file_is_appended_witness:
  "startsWith_dot ''.env''
   \<and> statSync example_root [''proj'', ''sub'', ''.env'']
     = Inr \<lparr>isDirectory = False, size_stat = 9, mtime = Date ''2025-03-08T09:31:00.000Z''\<rparr>
   \<and> getFilesFromResources example_root [Uri_file [''proj'', ''sub'', ''.env'']]
     = Inr [Uri_file [''proj'', ''sub'', ''.env'']]
   \<and> getFilesFromResources example_root [Uri_file [''proj'', ''sub'']]
     = Inr [Uri_file [''proj'', ''sub'', ''b.js'']]"
proof -
  let ?f = "Uri_file [''proj'', ''sub'', ''.env'']"
  let ?st = "\<lparr>isDirectory = False, size_stat = 9, mtime = Date ''2025-03-08T09:31:00.000Z''\<rparr>"
  have h0: "startsWith_dot ''.env''"
    by code_simp
  have h1: "statSync example_root [''proj'', ''sub'', ''.env''] = Inr ?st"
    by code_simp
  have h2: "statSync example_root (fsPath ?f) = Inr ?st \<and> \<not> isDirectory ?st"
    by code_simp
  have h3: "getFilesFromResources example_root [Uri_file [''proj'', ''sub'']]
      = Inr [Uri_file [''proj'', ''sub'', ''b.js'']]"
    by code_simp
  from selected_file_is_appended [of example_root ?f ?st "[]" "[]"] h2
  have "getFilesFromResources example_root [?f] = Inr [?f]
     \<and> getFilesFromResources example_root ([] @ ?f # []) =
         (case getFilesFromResources example_root [] of
            Inl e \<Rightarrow> Inl e
          | Inr f1 \<Rightarrow>
              (case getFilesFromResources example_root [] of
                 Inl e \<Rightarrow> Inl e
               | Inr f2 \<Rightarrow> Inr (f1 @ ?f # f2)))"
    by (rule mp)
  then have c: "getFilesFromResources example_root [?f] = Inr [?f]"
    by (rule conjunct1)
  show ?thesis
    using h0 h1 c h3 by (intro conjI)
qed

section \<open>The command: errors and empty selections\<close>

lemma example_env_root: "root example_env = example_root"
  by (simp add: example_env_def)

lemma entry_fails_single:
  assumes "entry_fails r resource"
  shows "\<exists>e. getFilesFromResources r [resource] = Inl e"
proof (cases "lookup r (fsPath resource)")
  case (Inl code)
  then show ?thesis
    by (simp add: getFilesFromResources_def statSync_def)
next
  case (Inr node)
  with assms have "node_fails (Inr node)"
    by (simp add: entry_fails_def)
  then show ?thesis
    using Inr by (cases node) (simp_all add: getFilesFromResources_def statSync_def)
qed

lemma failing_entry_fails_all:
  assumes "resource \<in> set resources" "getFilesFromResources r [resource] = Inl e"
  shows "\<exists>e'. getFilesFromResources r resources = Inl e'"
proof -
  from assms(1) obtain rs1 rs2 where split: "resources = rs1 @ resource # rs2"
    by (auto dest: split_list)
  have "\<exists>e'. getFilesFromResources r (resource # rs2) = Inl e'"
    by (simp add: getFilesFromResources_Cons [of r resource rs2] assms(2))
  then show ?thesis
    unfolding split
    by (auto simp: getFilesFromResources_append [of r rs1 "resource # rs2"] split: sum.splits)
qed

lemma packForLlm_error:
  "selectedResources \<noteq> [] \<Longrightarrow> getFilesFromResources (root host) selectedResources = Inl e \<Longrightarrow>
     packForLlm host selectedResources =
       (None, [ProgressReport ''Processing selected resources...'',
               ErrorMessage (''Error packing files: '' @ message e)])"
  by (simp add: packForLlm_def)

text \<open>
  C3, amended. If some entry point has nothing at its path, cannot be examined by
  \<^verbatim>\<open>statSync\<close>, or is a directory that cannot be listed, the resolution fails with an
  error, whatever the other entry points are; the command then produces no document and
  shows the error.
\<close>

theorem failing_entry_aborts:
  "resource \<in> set resources \<and> entry_fails (root host) resource \<longrightarrow>
     (\<exists>e. getFilesFromResources (root host) resources = Inl e
          \<and> packForLlm host resources =
              (None, [ProgressReport ''Processing selected resources...'',
                      ErrorMessage (''Error packing files: '' @ message e)]))"
proof (intro impI, elim conjE)
  assume mem: "resource \<in> set resources" and fails: "entry_fails (root host) resource"
  from entry_fails_single [OF fails] obtain e0 where
    "getFilesFromResources (root host) [resource] = Inl e0" ..
  from failing_entry_fails_all [OF mem this] obtain e where
    e: "getFilesFromResources (root host) resources = Inl e" ..
  from mem have "resources \<noteq> []" by auto
  from packForLlm_error [OF this e] e
  show "\<exists>e. getFilesFromResources (root host) resources = Inl e
          \<and> packForLlm host resources =
              (None, [ProgressReport ''Processing selected resources...'',
                      ErrorMessage (''Error packing files: '' @ message e)])"
    by blast
qed

theorem failing_entry_aborts_witness:
  "entry_fails (root example_env) (Uri_file [''proj'', ''missing''])
   \<and> entry_fails (root example_env) (Uri_file [''proj'', ''locked''])
   \<and> getFilesFromResources (root example_env)
        [Uri_file [''proj'', ''a.py''], Uri_file [''proj'', ''missing'']]
        = Inl (SystemError ENOENT ''stat'' ''/proj/missing'')
   \<and> (\<exists>e. getFilesFromResources (root example_env)
              [Uri_file [''proj'', ''a.py''], Uri_file [''proj'', ''missing'']] = Inl e
          \<and> packForLlm example_env
              [Uri_file [''proj'', ''a.py''], Uri_file [''proj'', ''missing'']] =
              (None, [ProgressReport ''Processing selected resources...'',
                      ErrorMessage (''Error packing files: '' @ message e)]))"
proof -
  let ?a = "Uri_file [''proj'', ''a.py'']"
  let ?m = "Uri_file [''proj'', ''missing'']"
  have h1: "?m \<in> set [?a, ?m] \<and> entry_fails (root example_env) ?m"
    unfolding example_env_root by code_simp
  have h2: "entry_fails (root example_env) (Uri_file [''proj'', ''locked''])"
    unfolding example_env_root by code_simp
  have h3: "getFilesFromResources (root example_env) [?a, ?m]
      = Inl (SystemError ENOENT ''stat'' ''/proj/missing'')"
    unfolding example_env_root by code_simp
  from failing_entry_aborts [of ?m "[?a, ?m]" example_env] h1
  have c: "\<exists>e. getFilesFromResources (root example_env) [?a, ?m] = Inl e
          \<and> packForLlm example_env [?a, ?m] =
              (None, [ProgressReport ''Processing selected resources...'',
                      ErrorMessage (''Error packing files: '' @ message e)])"
    by (rule mp)
  from h1 have h1': "entry_fails (root example_env) ?m"
    by (rule conjunct2)
  show ?thesis
    using h1' h2 h3 c by (intro conjI)
qed

text \<open>
  C9. With no entry point the command shows the warning that nothing was selected, and
  with entry points that resolve to no file the warning that no file was found; in both
  cases no document is produced and no error message is shown.
\<close>

theorem nothing_to_pack:
  "(selectedResources = [] \<longrightarrow>
      packForLlm host selectedResources =
        (None, [WarningMessage ''No files or folders selected to pack.'']))
   \<and> (selectedResources \<noteq> [] \<and> getFilesFromResources (root host) selectedResources = Inr []
        \<longrightarrow>
      packForLlm host selectedResources =
        (None, [ProgressReport ''Processing selected resources...'',
                WarningMessage ''No files found in the selected resources.'']))"
  by (simp add: packForLlm_def)

theorem nothing_to_pack_witness:
  "packForLlm example_env [] = (None, [WarningMessage ''No files or folders selected to pack.''])
   \<and> getFilesFromResources (root example_env) [Uri_file [''proj'', ''dots'']] = Inr []
   \<and> packForLlm example_env [Uri_file [''proj'', ''dots'']] =
        (None, [ProgressReport ''Processing selected resources...'',
                WarningMessage ''No files found in the selected resources.''])"
proof -
  let ?d = "Uri_file [''proj'', ''dots'']"
  have h1: "[?d] \<noteq> [] \<and> getFilesFromResources (root example_env) [?d] = Inr []"
    unfolding example_env_root by code_simp
  from nothing_to_pack [of "[]" example_env, THEN conjunct1]
  have c1: "packForLlm example_env []
      = (None, [WarningMessage ''No files or folders selected to pack.''])"
    by simp
  from nothing_to_pack [of "[?d]" example_env, THEN conjunct2] h1
  have c2: "packForLlm example_env [?d] =
      (None, [ProgressReport ''Processing selected resources...'',
              WarningMessage ''No files found in the selected resources.''])"
    by (rule mp)
  from h1 have h1': "getFilesFromResources (root example_env) [?d] = Inr []"
    by (rule conjunct2)
  show ?thesis
    using c1 h1' c2 by (intro conjI)
qed

section \<open>Properties of the formatter\<close>

text \<open>\<open>show_nat\<close> prints the decimal numeral of its argument.\<close>

lemma digit_value_digit_char: "d < 10 \<Longrightarrow> digit_value (digit_char d) = d"
proof -
  assume "d < 10"
  then have "d \<in> {0, 1, 2, 3, 4, 5, 6, 7, 8, 9}"
    by auto
  then show ?thesis
    by (auto simp: digit_char_def digit_value_def)
qed

lemma read_nat_snoc: "read_nat (s @ [c]) = 10 * read_nat s + digit_value c"
  by (simp add: read_nat_def)

lemma read_nat_show_nat: "read_nat (show_nat n) = n"
proof (induction n rule: show_nat.induct)
  case (1 n)
  show ?case
  proof (cases "n < 10")
    case True
    then show ?thesis
      by (subst show_nat.simps) (simp add: read_nat_def digit_value_digit_char)
  next
    case False
    with "1.IH" have "read_nat (show_nat (n div 10)) = n div 10"
      by simp
    with False show ?thesis
      by (subst show_nat.simps) (simp add: read_nat_snoc digit_value_digit_char)
  qed
qed

lemma digit_char_one_line: "d < 10 \<Longrightarrow> digit_char d \<noteq> CHR 0x0A"
proof -
  assume "d < 10"
  then have "d \<in> {0, 1, 2, 3, 4, 5, 6, 7, 8, 9}"
    by auto
  then show ?thesis
    by (auto simp: digit_char_def)
qed

lemma show_nat_one_line: "one_line (show_nat n)"
proof (induction n rule: show_nat.induct)
  case (1 n)
  have d: "CHR 0x0A \<noteq> digit_char (n mod 10)"
    using digit_char_one_line [of "n mod 10"] by auto
  show ?case
  proof (cases "n < 10")
    case True
    then have "CHR 0x0A \<noteq> digit_char n"
      using digit_char_one_line [of n] by auto
    with True show ?thesis
      by (subst show_nat.simps) (simp add: one_line_def)
  next
    case False
    with "1.IH" have "one_line (show_nat (n div 10))"
      by simp
    with False d show ?thesis
      by (subst show_nat.simps) (simp add: one_line_def)
  qed
qed

subsection \<open>Runs of statements\<close>

lemma plus_assign_Inr:
  "plus_assign limit s x = Inr s' \<longleftrightarrow> length s + length x \<le> limit \<and> s' = s @ x"
  by (auto simp: plus_assign_def)

lemma append_each_fits:
  "length s + length (emit rhs) \<le> limit \<Longrightarrow>
     append_each limit s rhs = (s @ emit rhs, thrown rhs)"
proof (induction rhs arbitrary: s)
  case Nil
  show ?case by simp
next
  case (Cons a rhs)
  show ?case
  proof (cases a)
    case (Inl e)
    then show ?thesis by simp
  next
    case (Inr x)
    with Cons.prems have fit: "length s + length x \<le> limit"
      and rest: "length (s @ x) + length (emit rhs) \<le> limit"
      by simp_all
    from Cons.IH [OF rest] fit Inr show ?thesis
      by (simp add: plus_assign_def)
  qed
qed

text \<open>A run of statements only appends, and when none throws it appends them all.\<close>

lemma append_each_extends: "\<exists>rest. fst (append_each limit s rhs) = s @ rest"
proof (induction rhs arbitrary: s)
  case Nil
  show ?case by simp
next
  case (Cons a rhs)
  show ?case
  proof (cases a)
    case (Inl e)
    then show ?thesis by simp
  next
    case (Inr x)
    show ?thesis
    proof (cases "length s + length x \<le> limit")
      case True
      from Cons.IH [of "s @ x"] obtain rest where
        "fst (append_each limit (s @ x) rhs) = (s @ x) @ rest" ..
      with True Inr show ?thesis
        by (simp add: plus_assign_def)
    next
      case False
      with Inr show ?thesis
        by (simp add: plus_assign_def)
    qed
  qed
qed

lemma append_each_None:
  "append_each limit s rhs = (s', None) \<Longrightarrow>
     s' = s @ emit rhs \<and> thrown rhs = None \<and> length s' \<le> max limit (length s)"
proof (induction rhs arbitrary: s)
  case Nil
  then show ?case by simp
next
  case (Cons a rhs)
  show ?case
  proof (cases a)
    case (Inl e)
    with Cons.prems show ?thesis by simp
  next
    case (Inr x)
    with Cons.prems have fit: "length s + length x \<le> limit"
      and rest: "append_each limit (s @ x) rhs = (s', None)"
      by (auto simp: plus_assign_def split: if_splits)
    from Cons.IH [OF rest] fit Inr show ?thesis
      by auto
  qed
qed

subsection \<open>The block of a file\<close>

lemma replicate_hashes: "replicate dividerLength (CHR ''#'') = hashes"
  by code_simp

lemma replicate_equals: "replicate dividerLength (CHR ''='') = equals"
  by code_simp

lemma fence_text: "fence = [CHR 0x60, CHR 0x60, CHR 0x60]"
  by (simp add: fence_def numeral_3_eq_3)

lemma emit_block:
  "emit (block_statements k n relPath lang content fileStats) =
     (case mtime fileStats of
        InvalidDate \<Rightarrow> cut_block k n relPath
      | Date isoTime \<Rightarrow>
          if lang = []
          then plain_block k n relPath (size_KB (size_stat fileStats)) isoTime content
          else fenced_block k n relPath (size_KB (size_stat fileStats)) isoTime lang content)"
  by (cases "mtime fileStats")
    (simp_all add: block_statements_def replicate_hashes replicate_equals newline_def
      fence_text cut_block_def plain_block_def fenced_block_def)

lemma thrown_block:
  "thrown (block_statements k n relPath lang content fileStats) =
     (case mtime fileStats of
        InvalidDate \<Rightarrow> Some (RangeError ''Invalid time value'')
      | Date isoTime \<Rightarrow> None)"
  by (cases "mtime fileStats") (simp_all add: block_statements_def)

lemma emitted_unreadable:
  "try_read host u = Inl e \<Longrightarrow> emitted host n k u = ([], [read_error host u e])"
  by (simp add: emitted_def read_error_def)

lemma emitted_read:
  assumes "try_read host u = Inr (content, fileStats)"
  shows "emitted host n k u =
    (emit (block_statements k n (relativePath host u) (getLanguageId (path_string (fsPath u)))
       content fileStats),
     case thrown (block_statements k n (relativePath host u)
            (getLanguageId (path_string (fsPath u))) content fileStats) of
       None \<Rightarrow> []
     | Some e \<Rightarrow> [read_error host u e])"
  using assms
  by (cases "mtime fileStats")
    (simp_all add: emitted_def emit_block thrown_block read_error_def Let_def)

subsection \<open>The loops within the greatest length\<close>

lemma files_loop_step_unreadable:
  "try_read host u = Inl e \<Longrightarrow>
     files_loop host n (u # files) i (s, shown)
       = files_loop host n files (i + 1) (s, shown @ [read_error host u e])"
  by (auto simp: try_read_def Let_def split: sum.splits)

lemma files_loop_step_read:
  "try_read host u = Inr (content, fileStats) \<Longrightarrow>
     files_loop host n (u # files) i (s, shown)
       = (case append_each (maxLength host) s
                 (block_statements i n (relativePath host u)
                    (getLanguageId (path_string (fsPath u))) content fileStats) of
            (s', None) \<Rightarrow> files_loop host n files (i + 1) (s', shown)
          | (s', Some err) \<Rightarrow>
              files_loop host n files (i + 1) (s', shown @ [read_error host u err]))"
  by (auto simp: try_read_def Let_def split: sum.splits)

lemma files_loop_fits:
  "length s + length (concat (map (\<lambda>(k, u). fst (emitted host n k u)) (enumerate i files)))
      \<le> maxLength host \<Longrightarrow>
   files_loop host n files i (s, shown) =
     (s @ concat (map (\<lambda>(k, u). fst (emitted host n k u)) (enumerate i files)),
      shown @ concat (map (\<lambda>(k, u). snd (emitted host n k u)) (enumerate i files)))"
proof (induction files arbitrary: i s shown)
  case Nil
  show ?case by simp
next
  case (Cons u files)
  let ?E = "\<lambda>(k, u). fst (emitted host n k u)"
  show ?case
  proof (cases "try_read host u")
    case (Inl e)
    from Cons.prems have
      "length s + length (concat (map ?E (enumerate (Suc i) files))) \<le> maxLength host"
      by simp
    from Cons.IH [OF this] show ?thesis
      by (simp add: files_loop_step_unreadable [OF Inl] emitted_unreadable [OF Inl]
          del: files_loop.simps)
  next
    case (Inr x)
    obtain content fileStats where x: "x = (content, fileStats)" by (cases x)
    let ?rhs = "block_statements i n (relativePath host u)
        (getLanguageId (path_string (fsPath u))) content fileStats"
    from Inr x have rd: "try_read host u = Inr (content, fileStats)" by simp
    have em: "emitted host n i u =
        (emit ?rhs, case thrown ?rhs of None \<Rightarrow> [] | Some e \<Rightarrow> [read_error host u e])"
      by (rule emitted_read [OF rd])
    from Cons.prems em have one: "length s + length (emit ?rhs) \<le> maxLength host"
      and rest: "length (s @ emit ?rhs)
          + length (concat (map ?E (enumerate (Suc i) files))) \<le> maxLength host"
      by simp_all
    have run: "append_each (maxLength host) s ?rhs = (s @ emit ?rhs, thrown ?rhs)"
      by (rule append_each_fits [OF one])
    show ?thesis
      by (cases "thrown ?rhs")
        (simp_all add: files_loop_step_read [OF rd] run Cons.IH [OF rest] em
          del: files_loop.simps)
  qed
qed

lemma toc_loop_fits:
  "length s
     + length (concat (map (\<lambda>(k, u). show_nat (k + 1) @ ''. '' @ relativePath host u @ newline)
         (enumerate i files))) \<le> maxLength host \<Longrightarrow>
   toc_loop host files i s =
     Inr (s @ concat (map (\<lambda>(k, u). show_nat (k + 1) @ ''. '' @ relativePath host u @ newline)
            (enumerate i files)))"
proof (induction files arbitrary: i s)
  case Nil
  show ?case by simp
next
  case (Cons u files)
  let ?x = "show_nat (i + 1) @ ''. '' @ relativePath host u @ newline"
  from Cons.prems have one: "length s + length ?x \<le> maxLength host"
    and rest: "length (s @ ?x)
       + length (concat (map (\<lambda>(k, u). show_nat (k + 1) @ ''. '' @ relativePath host u @ newline)
           (enumerate (Suc i) files))) \<le> maxLength host"
    by simp_all
  from Cons.IH [OF rest] one show ?case
    by (simp add: plus_assign_def)
qed

lemma toc_loop_Inr:
  "toc_loop host files i s = Inr s' \<Longrightarrow>
     s' = s @ concat (map (\<lambda>(k, u). show_nat (k + 1) @ ''. '' @ relativePath host u @ newline)
            (enumerate i files))"
proof (induction files arbitrary: i s)
  case Nil
  then show ?case by simp
next
  case (Cons u files)
  let ?x = "show_nat (i + 1) @ ''. '' @ relativePath host u @ newline"
  from Cons.prems have "toc_loop host files (i + 1) (s @ ?x) = Inr s'"
    by (auto simp: plus_assign_def split: if_splits)
  from Cons.IH [OF this] show ?case
    by simp
qed

subsection \<open>The head of the document\<close>

lemma unlines_append: "unlines (a @ b) = unlines a @ unlines b"
  by (simp add: unlines_def)

lemma head_text:
  "unlines (head_lines host files) =
     emit (title_lines host files)
     @ concat (map (\<lambda>(k, u). show_nat (k + 1) @ ''. '' @ relativePath host u @ newline)
         (enumerate 0 files))
     @ newline @ replicate dividerLength (CHR ''='') @ newline @ newline"
proof -
  have "unlines (map (\<lambda>(k, u). show_nat (k + 1) @ ''. '' @ relativePath host u) xs)
      = concat (map (\<lambda>(k, u). show_nat (k + 1) @ ''. '' @ relativePath host u @ newline) xs)"
    for xs :: "(nat \<times> uri) list"
    by (induction xs) (auto simp: unlines_def newline_def)
  then show ?thesis
    by (simp add: head_lines_def unlines_append title_lines_def replicate_equals)
      (simp add: unlines_def newline_def)
qed

lemma thrown_title_lines: "thrown (title_lines host files) = None"
  by (simp add: title_lines_def)

lemma preamble_fits:
  assumes "length (unlines (head_lines host files)) \<le> maxLength host"
  shows "preamble host files = Inr (unlines (head_lines host files))"
proof -
  let ?toc = "concat (map (\<lambda>(k, u). show_nat (k + 1) @ ''. '' @ relativePath host u @ newline)
      (enumerate 0 files))"
  let ?last = "newline @ replicate dividerLength (CHR ''='') @ newline @ newline"
  from assms have len: "length (emit (title_lines host files)) + length ?toc + length ?last
      \<le> maxLength host"
    by (simp add: head_text)
  then have "length [] + length (emit (title_lines host files)) \<le> maxLength host"
    by simp
  from append_each_fits [OF this]
  have 1: "append_each (maxLength host) [] (title_lines host files)
      = (emit (title_lines host files), None)"
    by (simp add: thrown_title_lines)
  from len have "length (emit (title_lines host files)) + length ?toc \<le> maxLength host"
    by simp
  from toc_loop_fits [OF this]
  have 2: "toc_loop host files 0 (emit (title_lines host files))
      = Inr (emit (title_lines host files) @ ?toc)" .
  from len have 3: "plus_assign (maxLength host) (emit (title_lines host files) @ ?toc) ?last
      = Inr ((emit (title_lines host files) @ ?toc) @ ?last)"
    by (simp add: plus_assign_def)
  show ?thesis
    unfolding preamble_def 1
    by (simp only: prod.case option.case 2 sum.case 3 head_text append_assoc)
qed

lemma preamble_Inr:
  assumes "preamble host files = Inr s"
  shows "s = unlines (head_lines host files)"
proof -
  let ?last = "newline @ replicate dividerLength (CHR ''='') @ newline @ newline"
  from assms obtain s1 s2 where
    1: "append_each (maxLength host) [] (title_lines host files) = (s1, None)"
    and 2: "toc_loop host files 0 s1 = Inr s2"
    and 3: "plus_assign (maxLength host) s2 ?last = Inr s"
    by (auto simp: preamble_def split: prod.splits option.splits sum.splits)
  from append_each_None [OF 1] have "s1 = emit (title_lines host files)"
    by simp
  with toc_loop_Inr [OF 2] 3 show ?thesis
    by (simp add: plus_assign_Inr head_text)
qed

subsection \<open>The whole document\<close>

lemma files_loop_extends: "\<exists>rest. fst (files_loop host n files i (s, shown)) = s @ rest"
proof (induction files arbitrary: i s shown)
  case Nil
  show ?case by simp
next
  case (Cons u files)
  show ?case
  proof (cases "try_read host u")
    case (Inl e)
    from Cons.IH [of "i + 1" s "shown @ [read_error host u e]"] show ?thesis
      by (simp add: files_loop_step_unreadable [OF Inl] del: files_loop.simps)
  next
    case (Inr x)
    obtain content fileStats where x: "x = (content, fileStats)" by (cases x)
    let ?rhs = "block_statements i n (relativePath host u)
        (getLanguageId (path_string (fsPath u))) content fileStats"
    from Inr x have rd: "try_read host u = Inr (content, fileStats)" by simp
    obtain s' err where run: "append_each (maxLength host) s ?rhs = (s', err)"
      by (cases "append_each (maxLength host) s ?rhs")
    from append_each_extends [of "maxLength host" s ?rhs] run obtain m1 where
      m1: "s' = s @ m1" by auto
    show ?thesis
    proof (cases err)
      case None
      from Cons.IH [of "i + 1" s' shown] obtain m2 where
        "fst (files_loop host n files (i + 1) (s', shown)) = s' @ m2" ..
      with m1 None run show ?thesis
        by (simp add: files_loop_step_read [OF rd] del: files_loop.simps)
    next
      case (Some e)
      from Cons.IH [of "i + 1" s' "shown @ [read_error host u e]"] obtain m2 where
        "fst (files_loop host n files (i + 1) (s', shown @ [read_error host u e])) = s' @ m2" ..
      with m1 Some run show ?thesis
        by (simp add: files_loop_step_read [OF rd] del: files_loop.simps)
    qed
  qed
qed

text \<open>
  When the whole document, as written out, is no longer than the greatest length of a
  string, the formatter returns it, with the messages.
\<close>

lemma packFiles_fits:
  assumes "length (whole_document host files) \<le> maxLength host"
  shows "packFiles host files = Inr (whole_document host files, whole_messages host files)"
proof -
  let ?E = "\<lambda>(k, u). fst (emitted host (length files) k u)"
  from assms have head: "length (unlines (head_lines host files)) \<le> maxLength host"
    and all: "length (unlines (head_lines host files))
        + length (concat (map ?E (enumerate 0 files))) \<le> maxLength host"
    by (simp_all add: whole_document_def)
  from files_loop_fits [OF all, of "[]"] preamble_fits [OF head] show ?thesis
    by (simp add: packFiles_def whole_document_def whole_messages_def)
qed

lemma packFiles_Inr:
  assumes "packFiles host files = Inr (doc, shown)"
  shows "\<exists>rest. doc = unlines (head_lines host files) @ rest"
proof -
  from assms obtain s where s: "preamble host files = Inr s"
    and r: "files_loop host (length files) files 0 (s, []) = (doc, shown)"
    by (auto simp: packFiles_def split: sum.splits)
  from files_loop_extends [of host "length files" files 0 s "[]"] r obtain rest where
    "doc = s @ rest" by auto
  with preamble_Inr [OF s] show ?thesis
    by blast
qed

subsection \<open>Lines\<close>

lemma lines_nonempty: "lines s \<noteq> []"
  by (induction s) (auto split: list.splits)

lemma lines_nl: "lines (a @ CHR 0x0A # b) = lines a @ lines b"
proof (induction a)
  case Nil
  show ?case by simp
next
  case (Cons c a)
  obtain l ls where l: "lines a = l # ls"
    using lines_nonempty [of a] by (cases "lines a") auto
  with Cons show ?case
    by simp
qed

lemma lines_one_line: "one_line l \<Longrightarrow> lines l = [l]"
  by (induction l) (auto simp: one_line_def)

lemma lines_unlines:
  "list_all one_line ls \<Longrightarrow> lines (unlines ls @ rest) = ls @ lines rest"
proof (induction ls)
  case Nil
  show ?case by (simp add: unlines_def)
next
  case (Cons l ls)
  then have "lines (unlines ls @ rest) = ls @ lines rest" and l: "one_line l"
    by simp_all
  then show ?case
    by (simp add: unlines_def lines_nl lines_one_line [OF l])
qed


section \<open>The formatter at two times, on its head and on its blocks\<close>

subsection \<open>Two runs at different times\<close>



lemma relativePath_now [simp]: "relativePath (host\<lparr>now := t\<rparr>) u = relativePath host u"
  by (simp add: relativePath_def)

lemma read_error_now [simp]: "read_error (host\<lparr>now := t\<rparr>) u e = read_error host u e"
  by (simp add: read_error_def)






subsection \<open>The lines of the head\<close>

lemma one_line_append [simp]: "one_line (a @ b) = (one_line a \<and> one_line b)"
  by (auto simp: one_line_def)

lemma one_line_Nil [simp]: "one_line []"
  by (simp add: one_line_def)

lemma one_line_Cons [simp]: "one_line (c # s) = (c \<noteq> CHR 0x0A \<and> one_line s)"
  by (auto simp: one_line_def)

lemma one_line_equals: "one_line equals"
  unfolding equals_def by simp


lemma head_lines_one_line:
  assumes "one_line (now host)" and "\<forall>u\<in>set files. one_line (relativePath host u)"
  shows "list_all one_line (head_lines host files)"
proof -
  have "list_all one_line
      (map (\<lambda>(k, u). show_nat (k + 1) @ ''. '' @ relativePath host u) (enumerate 0 files))"
    using assms(2)
    by (auto simp: list_all_iff in_set_enumerate_eq show_nat_one_line)
  then show ?thesis
    using assms(1) by (simp add: head_lines_def show_nat_one_line one_line_equals)
qed

lemma length_head_lines: "length (head_lines host files) = length files + 8"
  by (simp add: head_lines_def)

text \<open>
  C5, amended. When the head fits within the greatest length of a string, the formatter
  returns a document, and the document begins with the text of the head. When the time of
  the run and the display paths hold no line feed, the first \<open>N + 8\<close> lines of the
  document are: the title, the total with the decimal numeral of \<open>N\<close>, the generation
  line, an empty line, the heading of the table, one line per file, numbered from 1 in the
  order of the list, an empty line, 80 equals signs, an empty line.
\<close>

theorem document_header:
  "(length (unlines (head_lines host files)) \<le> maxLength host \<longrightarrow>
      (\<exists>rest shown. packFiles host files = Inr (unlines (head_lines host files) @ rest, shown)))
   \<and> (packFiles host files = Inr (doc, shown) \<and> one_line (now host)
        \<and> (\<forall>u\<in>set files. one_line (relativePath host u)) \<longrightarrow>
      take (length files + 8) (lines doc) =
        [''# Project Files Pack for LLM'',
         ''# Total files: '' @ show_nat (length files),
         ''# Generated: '' @ now host,
         [],
         ''## Files included:'']
        @ map (\<lambda>(k, u). show_nat (k + 1) @ ''. '' @ relativePath host u) (enumerate 0 files)
        @ [[],
           ''================================================================================'',
           []])"
proof (intro conjI impI)
  assume "length (unlines (head_lines host files)) \<le> maxLength host"
  from preamble_fits [OF this]
  have "packFiles host files
      = Inr (files_loop host (length files) files 0 (unlines (head_lines host files), []))"
    by (simp add: packFiles_def)
  moreover obtain d sh where
    r: "files_loop host (length files) files 0 (unlines (head_lines host files), []) = (d, sh)"
    by (cases "files_loop host (length files) files 0 (unlines (head_lines host files), [])")
      auto
  moreover from files_loop_extends [of host "length files" files 0
      "unlines (head_lines host files)" "[]"] r
  obtain rest where "d = unlines (head_lines host files) @ rest"
    by auto
  ultimately show
    "\<exists>rest shown. packFiles host files = Inr (unlines (head_lines host files) @ rest, shown)"
    by auto
next
  assume a: "packFiles host files = Inr (doc, shown) \<and> one_line (now host)
      \<and> (\<forall>u\<in>set files. one_line (relativePath host u))"
  then obtain rest where doc: "doc = unlines (head_lines host files) @ rest"
    using packFiles_Inr [of host files doc shown] by auto
  from a have "list_all one_line (head_lines host files)"
    by (intro head_lines_one_line) simp_all
  from lines_unlines [OF this, of rest] doc
  have "take (length files + 8) (lines doc) = head_lines host files"
    by (simp add: length_head_lines)
  then show "take (length files + 8) (lines doc) =
        [''# Project Files Pack for LLM'',
         ''# Total files: '' @ show_nat (length files),
         ''# Generated: '' @ now host,
         [],
         ''## Files included:'']
        @ map (\<lambda>(k, u). show_nat (k + 1) @ ''. '' @ relativePath host u) (enumerate 0 files)
        @ [[],
           ''================================================================================'',
           []]"
    unfolding head_lines_def equals_def by (simp only:)
qed

subsection \<open>The blocks of the files that are read\<close>

lemma map_enumerate_snd: "map (\<lambda>(k, u). h u) (enumerate i xs) = map h xs"
  by (induction xs arbitrary: i) simp_all

text \<open>
  C2, amended. Take a list of files whose document fits within the greatest length of a
  string, and in which every file that is read has a modification time that can be
  printed (\<open>stamp u\<close> for the file \<open>u\<close>). Then the formatter returns: the document made of
  the head and, in the order of the list, the whole block of each file that is read, and
  nothing for a file whose read fails; and one error message for each file whose read
  fails, with its display path and the error.
\<close>

theorem read_failure_is_skipped:
  assumes "length (whole_document host files) \<le> maxLength host"
    and "\<forall>u\<in>set files. \<forall>content fileStats.
           try_read host u = Inr (content, fileStats) \<longrightarrow> mtime fileStats = Date (stamp u)"
  shows "packFiles host files =
     Inr (unlines (head_lines host files)
          @ concat (map (\<lambda>(k, u).
              case try_read host u of
                Inl e \<Rightarrow> []
              | Inr (content, fileStats) \<Rightarrow>
                  (if getLanguageId (path_string (fsPath u)) = []
                   then plain_block k (length files) (relativePath host u)
                          (size_KB (size_stat fileStats)) (stamp u) content
                   else fenced_block k (length files) (relativePath host u)
                          (size_KB (size_stat fileStats)) (stamp u)
                          (getLanguageId (path_string (fsPath u))) content))
              (enumerate 0 files)),
          concat (map (\<lambda>u.
              case try_read host u of
                Inl e \<Rightarrow>
                  [ErrorMessage
                     (''Error reading file '' @ relativePath host u @ '': '' @ error_string e)]
              | Inr r \<Rightarrow> [])
              files))"
proof -
  have em: "emitted host (length files) k u =
      (case try_read host u of
         Inl e \<Rightarrow>
           ([],
            [ErrorMessage
               (''Error reading file '' @ relativePath host u @ '': '' @ error_string e)])
       | Inr (content, fileStats) \<Rightarrow>
           (if getLanguageId (path_string (fsPath u)) = []
            then plain_block k (length files) (relativePath host u)
                   (size_KB (size_stat fileStats)) (stamp u) content
            else fenced_block k (length files) (relativePath host u)
                   (size_KB (size_stat fileStats)) (stamp u)
                   (getLanguageId (path_string (fsPath u))) content,
            []))"
    if "u \<in> set files" for k u
  proof (cases "try_read host u")
    case (Inl e)
    then show ?thesis by (simp add: emitted_def Let_def)
  next
    case (Inr r)
    obtain content fileStats where r: "r = (content, fileStats)"
      by (cases r) auto
    with Inr that assms(2) have "mtime fileStats = Date (stamp u)"
      by auto
    with Inr r show ?thesis by (simp add: emitted_def Let_def)
  qed
  have "map (\<lambda>(k, u). fst (emitted host (length files) k u)) (enumerate 0 files)
      = map (\<lambda>(k, u).
              case try_read host u of
                Inl e \<Rightarrow> []
              | Inr (content, fileStats) \<Rightarrow>
                  (if getLanguageId (path_string (fsPath u)) = []
                   then plain_block k (length files) (relativePath host u)
                          (size_KB (size_stat fileStats)) (stamp u) content
                   else fenced_block k (length files) (relativePath host u)
                          (size_KB (size_stat fileStats)) (stamp u)
                          (getLanguageId (path_string (fsPath u))) content))
              (enumerate 0 files)"
    by (rule map_cong [OF refl]) (auto simp: in_set_enumerate_eq em split: sum.splits)
  moreover have "map (\<lambda>(k, u). snd (emitted host (length files) k u)) (enumerate 0 files)
      = map (\<lambda>(k, u).
              case try_read host u of
                Inl e \<Rightarrow>
                  [ErrorMessage
                     (''Error reading file '' @ relativePath host u @ '': '' @ error_string e)]
              | Inr r \<Rightarrow> [])
              (enumerate 0 files)"
    by (rule map_cong [OF refl]) (auto simp: in_set_enumerate_eq em split: sum.splits)
  ultimately show ?thesis
    using packFiles_fits [OF assms(1)]
    by (simp only: whole_document_def whole_messages_def map_enumerate_snd)
qed

subsection \<open>The block of one file among the others\<close>











section \<open>The example project, evaluated\<close>

lemma emitted_plain:
  assumes "try_read host u = Inr (content, fileStats)" and "mtime fileStats = Date isoTime"
    and "getLanguageId (path_string (fsPath u)) = []"
  shows "emitted host n k u =
    (plain_block k n (relativePath host u) (size_KB (size_stat fileStats)) isoTime content, [])"
  using assms by (simp add: emitted_def Let_def)

lemma emitted_fenced:
  assumes "try_read host u = Inr (content, fileStats)" and "mtime fileStats = Date isoTime"
    and "getLanguageId (path_string (fsPath u)) \<noteq> []"
  shows "emitted host n k u =
    (fenced_block k n (relativePath host u) (size_KB (size_stat fileStats)) isoTime
       (getLanguageId (path_string (fsPath u))) content, [])"
  using assms by (simp add: emitted_def Let_def)

lemma example_workspace:
  "getWorkspaceFolder example_env (Uri_file (''proj'' # p)) = Some [''proj'']"
  by (simp add: example_env_def)

lemma example_now:
  "now example_env = ''2025-03-08T12:00:00.000Z''"
  by (simp add: example_env_def)

lemma example_numbers:
  "show_nat 1 = ''1''" "show_nat (Suc 0) = ''1''" "show_nat 2 = ''2''" "show_nat 3 = ''3''"
  "show_nat (Suc (Suc 0)) = ''2''" "show_nat (Suc (Suc (Suc 0))) = ''3''"
  by code_simp+

lemma example_size_KB:
  "size_KB 2048 = ''2.0''" "size_KB 256 = ''0.3''" "size_KB 3 = ''0.0''"
  "size_KB 16 = ''0.0''" "size_KB 1 = ''0.0''" "size_KB (Suc 0) = ''0.0''"
  by code_simp+

lemma example_lookup_a:
  "lookup example_root [''proj'', ''a.py'']
     = Inr (File 2048 (Date ''2025-03-08T09:00:00.000Z'') (Inr ''print(1)''))"
  by code_simp

lemma example_try_read_a:
  "try_read example_env (Uri_file [''proj'', ''a.py''])
     = Inr (''print(1)'',
          \<lparr>isDirectory = False, size_stat = 2048, mtime = Date ''2025-03-08T09:00:00.000Z''\<rparr>)"
  by (simp add: try_read_def readFileSync_def statSync_def example_lookup_a example_env_def)

lemma example_relative_a:
  "join_components (path_relative [''proj''] [''proj'', ''a.py'']) = ''a.py''"
  by code_simp

lemma example_relativePath_a:
  "relativePath example_env (Uri_file [''proj'', ''a.py'']) = ''a.py''"
  by (simp add: relativePath_def example_workspace example_relative_a)

lemma example_language_a:
  "getLanguageId (path_string (fsPath (Uri_file [''proj'', ''a.py'']))) = ''python''"
  by code_simp

lemma example_language_path_a:
  "getLanguageId ''/proj/a.py'' = ''python''"
  by code_simp

lemma example_language_nonempty_a:
  "getLanguageId (path_string (fsPath (Uri_file [''proj'', ''a.py'']))) \<noteq> []"
  unfolding example_language_a by simp

lemma example_emitted_a:
  "emitted example_env n k (Uri_file [''proj'', ''a.py''])
     = (fenced_block k n ''a.py'' ''2.0'' ''2025-03-08T09:00:00.000Z'' ''python'' ''print(1)'', [])"
  using emitted_fenced [OF example_try_read_a _ example_language_nonempty_a, of "''2025-03-08T09:00:00.000Z''" n k]
  unfolding example_language_a
  by (simp add: example_relativePath_a example_size_KB)

lemma example_lookup_secret:
  "lookup example_root [''proj'', ''secret.txt'']
     = Inr (File 5 (Date ''2025-03-08T09:20:00.000Z'') (Inl EACCES))"
  by code_simp

lemma example_try_read_secret:
  "try_read example_env (Uri_file [''proj'', ''secret.txt''])
     = Inl (SystemError EACCES ''open'' ''/proj/secret.txt'')"
  by (simp add: try_read_def readFileSync_def statSync_def example_lookup_secret example_env_def)

lemma example_relative_secret:
  "join_components (path_relative [''proj''] [''proj'', ''secret.txt'']) = ''secret.txt''"
  by code_simp

lemma example_relativePath_secret:
  "relativePath example_env (Uri_file [''proj'', ''secret.txt'']) = ''secret.txt''"
  by (simp add: relativePath_def example_workspace example_relative_secret)

lemma example_language_secret:
  "getLanguageId (path_string (fsPath (Uri_file [''proj'', ''secret.txt'']))) = []"
  by code_simp

lemma example_language_path_secret:
  "getLanguageId ''/proj/secret.txt'' = []"
  by code_simp

lemma example_emitted_secret:
  "emitted example_env n k (Uri_file [''proj'', ''secret.txt''])
     = ([],
        [ErrorMessage
           (''Error reading file secret.txt: Error: EACCES: permission denied, open ''
             @ [CHR 0x27]
             @ ''/proj/secret.txt''
             @ [CHR 0x27])])"
  by (simp add: emitted_def example_try_read_secret example_relativePath_secret Let_def quoted_def)






lemma example_language_path_lib:
  "getLanguageId ''/proj/lib.Rs'' = ''rust''"
  by code_simp



lemma example_lookup_notes:
  "lookup example_root [''proj'', ''notes.xyz'']
     = Inr (File 3 (Date ''2025-03-08T09:50:00.000Z'') (Inr ''abc''))"
  by code_simp

lemma example_try_read_notes:
  "try_read example_env (Uri_file [''proj'', ''notes.xyz''])
     = Inr (''abc'',
          \<lparr>isDirectory = False, size_stat = 3, mtime = Date ''2025-03-08T09:50:00.000Z''\<rparr>)"
  by (simp add: try_read_def readFileSync_def statSync_def example_lookup_notes example_env_def)

lemma example_relative_notes:
  "join_components (path_relative [''proj''] [''proj'', ''notes.xyz'']) = ''notes.xyz''"
  by code_simp

lemma example_relativePath_notes:
  "relativePath example_env (Uri_file [''proj'', ''notes.xyz'']) = ''notes.xyz''"
  by (simp add: relativePath_def example_workspace example_relative_notes)

lemma example_language_notes:
  "getLanguageId (path_string (fsPath (Uri_file [''proj'', ''notes.xyz'']))) = []"
  by code_simp

lemma example_language_path_notes:
  "getLanguageId ''/proj/notes.xyz'' = []"
  by code_simp

lemma example_emitted_notes:
  "emitted example_env n k (Uri_file [''proj'', ''notes.xyz''])
     = (plain_block k n ''notes.xyz'' ''0.0'' ''2025-03-08T09:50:00.000Z'' ''abc'', [])"
  using emitted_plain [OF example_try_read_notes _ example_language_notes, of "''2025-03-08T09:50:00.000Z''" n k]
  by (simp add: example_relativePath_notes example_size_KB)

lemma example_lookup_late:
  "lookup example_root [''proj'', ''late.rs'']
     = Inr (File 12 (InvalidDate) (Inr ''fn late() {}''))"
  by code_simp

lemma example_try_read_late:
  "try_read example_env (Uri_file [''proj'', ''late.rs''])
     = Inr (''fn late() {}'',
          \<lparr>isDirectory = False, size_stat = 12, mtime = InvalidDate\<rparr>)"
  by (simp add: try_read_def readFileSync_def statSync_def example_lookup_late example_env_def)

lemma example_relative_late:
  "join_components (path_relative [''proj''] [''proj'', ''late.rs'']) = ''late.rs''"
  by code_simp

lemma example_relativePath_late:
  "relativePath example_env (Uri_file [''proj'', ''late.rs'']) = ''late.rs''"
  by (simp add: relativePath_def example_workspace example_relative_late)

lemma example_language_late:
  "getLanguageId (path_string (fsPath (Uri_file [''proj'', ''late.rs'']))) = ''rust''"
  by code_simp

lemma example_language_path_late:
  "getLanguageId ''/proj/late.rs'' = ''rust''"
  by code_simp

lemma example_language_nonempty_late:
  "getLanguageId (path_string (fsPath (Uri_file [''proj'', ''late.rs'']))) \<noteq> []"
  unfolding example_language_late by simp

lemma example_emitted_late:
  "emitted example_env n k (Uri_file [''proj'', ''late.rs''])
     = (cut_block k n ''late.rs'',
        [ErrorMessage ''Error reading file late.rs: RangeError: Invalid time value''])"
  by (simp add: emitted_def example_try_read_late example_relativePath_late Let_def)






lemma example_language_path_howto:
  "getLanguageId ''/proj/howto.xyz'' = []"
  by code_simp


lemma example_lookup_twoline:
  "lookup example_root [''proj'', ''a\<newline>2. b'']
     = Inr (File 1 (Date ''2025-03-08T10:10:00.000Z'') (Inr ''x''))"
  by code_simp

lemma example_try_read_twoline:
  "try_read example_env (Uri_file [''proj'', ''a\<newline>2. b''])
     = Inr (''x'',
          \<lparr>isDirectory = False, size_stat = 1, mtime = Date ''2025-03-08T10:10:00.000Z''\<rparr>)"
  by (simp add: try_read_def readFileSync_def statSync_def example_lookup_twoline example_env_def)

lemma example_relative_twoline:
  "join_components (path_relative [''proj''] [''proj'', ''a\<newline>2. b'']) = ''a\<newline>2. b''"
  by code_simp

lemma example_relativePath_twoline:
  "relativePath example_env (Uri_file [''proj'', ''a\<newline>2. b'']) = ''a\<newline>2. b''"
  by (simp add: relativePath_def example_workspace example_relative_twoline)

lemma example_language_twoline:
  "getLanguageId (path_string (fsPath (Uri_file [''proj'', ''a\<newline>2. b'']))) = []"
  by code_simp

lemma example_language_path_twoline:
  "getLanguageId ''/proj/a\<newline>2. b'' = []"
  by code_simp

lemma example_emitted_twoline:
  "emitted example_env n k (Uri_file [''proj'', ''a\<newline>2. b''])
     = (plain_block k n ''a\<newline>2. b'' ''0.0'' ''2025-03-08T10:10:00.000Z'' ''x'', [])"
  using emitted_plain [OF example_try_read_twoline _ example_language_twoline, of "''2025-03-08T10:10:00.000Z''" n k]
  by (simp add: example_relativePath_twoline example_size_KB)

lemma example_document_three:
  "whole_document example_env
     [Uri_file [''proj'', ''a.py''],
     Uri_file [''proj'', ''secret.txt''],
     Uri_file [''proj'', ''notes.xyz'']] =
        ''# Project Files Pack for LLM\<newline># Total files: 3\<newline>''
        @ ''# Generated: 2025-03-08T12:00:00.000Z\<newline>\<newline>''
        @ ''## Files included:\<newline>1. a.py\<newline>2. secret.txt\<newline>''
        @ ''3. notes.xyz\<newline>\<newline>''
        @ ''================================================================================\<newline>''
        @ ''\<newline>''
        @ ''################################################################################\<newline>''
        @ ''# FILE 1/3: a.py\<newline>''
        @ ''# Size: 2.0 KB | Last modified: 2025-03-08T09:00:00.000Z\<newline>''
        @ ''# Language: python\<newline>''
        @ ''################################################################################\<newline>''
        @ ''\<newline>''
        @ [CHR 0x60, CHR 0x60, CHR 0x60]
        @ ''python\<newline>print(1)\<newline>''
        @ [CHR 0x60, CHR 0x60, CHR 0x60]
        @ ''\<newline>\<newline>\<newline>''
        @ ''================================================================================\<newline>''
        @ ''\<newline>''
        @ ''################################################################################\<newline>''
        @ ''# FILE 3/3: notes.xyz\<newline>''
        @ ''# Size: 0.0 KB | Last modified: 2025-03-08T09:50:00.000Z\<newline>''
        @ ''################################################################################\<newline>''
        @ ''\<newline>abc\<newline>\<newline>\<newline>''
        @ ''================================================================================\<newline>''
        @ ''\<newline>''"
  by (simp add: whole_document_def head_lines_def unlines_def example_now example_numbers
      example_emitted_a example_relativePath_a example_emitted_secret example_relativePath_secret example_emitted_notes example_relativePath_notes
      plain_block_def fenced_block_def cut_block_def hashes_def equals_def)

lemma example_pack_three:
  "packFiles example_env
     [Uri_file [''proj'', ''a.py''],
     Uri_file [''proj'', ''secret.txt''],
     Uri_file [''proj'', ''notes.xyz'']] =
     Inr (''# Project Files Pack for LLM\<newline># Total files: 3\<newline>''
        @ ''# Generated: 2025-03-08T12:00:00.000Z\<newline>\<newline>''
        @ ''## Files included:\<newline>1. a.py\<newline>2. secret.txt\<newline>''
        @ ''3. notes.xyz\<newline>\<newline>''
        @ ''================================================================================\<newline>''
        @ ''\<newline>''
        @ ''################################################################################\<newline>''
        @ ''# FILE 1/3: a.py\<newline>''
        @ ''# Size: 2.0 KB | Last modified: 2025-03-08T09:00:00.000Z\<newline>''
        @ ''# Language: python\<newline>''
        @ ''################################################################################\<newline>''
        @ ''\<newline>''
        @ [CHR 0x60, CHR 0x60, CHR 0x60]
        @ ''python\<newline>print(1)\<newline>''
        @ [CHR 0x60, CHR 0x60, CHR 0x60]
        @ ''\<newline>\<newline>\<newline>''
        @ ''================================================================================\<newline>''
        @ ''\<newline>''
        @ ''################################################################################\<newline>''
        @ ''# FILE 3/3: notes.xyz\<newline>''
        @ ''# Size: 0.0 KB | Last modified: 2025-03-08T09:50:00.000Z\<newline>''
        @ ''################################################################################\<newline>''
        @ ''\<newline>abc\<newline>\<newline>\<newline>''
        @ ''================================================================================\<newline>''
        @ ''\<newline>'',
          [ErrorMessage
            (''Error reading file secret.txt: Error: EACCES: permission denied, open ''
               @ [CHR 0x27]
               @ ''/proj/secret.txt''
               @ [CHR 0x27])])"
proof -
  have "length (whole_document example_env
     [Uri_file [''proj'', ''a.py''],
     Uri_file [''proj'', ''secret.txt''],
     Uri_file [''proj'', ''notes.xyz'']])
      \<le> maxLength example_env"
    unfolding example_document_three by (simp add: example_env_def)
  from packFiles_fits [OF this] show ?thesis
    by (simp add: example_document_three whole_messages_def
      example_emitted_a example_emitted_secret example_emitted_notes)
qed

lemma example_document_cut:
  "whole_document example_env
     [Uri_file [''proj'', ''secret.txt''],
     Uri_file [''proj'', ''late.rs'']] =
        ''# Project Files Pack for LLM\<newline># Total files: 2\<newline>''
        @ ''# Generated: 2025-03-08T12:00:00.000Z\<newline>\<newline>''
        @ ''## Files included:\<newline>1. secret.txt\<newline>2. late.rs\<newline>\<newline>''
        @ ''================================================================================\<newline>''
        @ ''\<newline>''
        @ ''################################################################################\<newline>''
        @ ''# FILE 2/2: late.rs\<newline>''"
  by (simp add: whole_document_def head_lines_def unlines_def example_now example_numbers
      example_emitted_secret example_relativePath_secret example_emitted_late example_relativePath_late
      plain_block_def fenced_block_def cut_block_def hashes_def equals_def)

lemma example_pack_cut:
  "packFiles example_env
     [Uri_file [''proj'', ''secret.txt''],
     Uri_file [''proj'', ''late.rs'']] =
     Inr (''# Project Files Pack for LLM\<newline># Total files: 2\<newline>''
        @ ''# Generated: 2025-03-08T12:00:00.000Z\<newline>\<newline>''
        @ ''## Files included:\<newline>1. secret.txt\<newline>2. late.rs\<newline>\<newline>''
        @ ''================================================================================\<newline>''
        @ ''\<newline>''
        @ ''################################################################################\<newline>''
        @ ''# FILE 2/2: late.rs\<newline>'',
          [ErrorMessage
            (''Error reading file secret.txt: Error: EACCES: permission denied, open ''
               @ [CHR 0x27]
               @ ''/proj/secret.txt''
               @ [CHR 0x27]),
          ErrorMessage
            (''Error reading file late.rs: RangeError: Invalid time value'')])"
proof -
  have "length (whole_document example_env
     [Uri_file [''proj'', ''secret.txt''],
     Uri_file [''proj'', ''late.rs'']])
      \<le> maxLength example_env"
    unfolding example_document_cut by (simp add: example_env_def)
  from packFiles_fits [OF this] show ?thesis
    by (simp add: example_document_cut whole_messages_def
      example_emitted_secret example_emitted_late)
qed

lemma example_document_twoline:
  "whole_document example_env
     [Uri_file [''proj'', ''a\<newline>2. b'']] =
        ''# Project Files Pack for LLM\<newline># Total files: 1\<newline>''
        @ ''# Generated: 2025-03-08T12:00:00.000Z\<newline>\<newline>''
        @ ''## Files included:\<newline>1. a\<newline>2. b\<newline>\<newline>''
        @ ''================================================================================\<newline>''
        @ ''\<newline>''
        @ ''################################################################################\<newline>''
        @ ''# FILE 1/1: a\<newline>2. b\<newline>''
        @ ''# Size: 0.0 KB | Last modified: 2025-03-08T10:10:00.000Z\<newline>''
        @ ''################################################################################\<newline>''
        @ ''\<newline>x\<newline>\<newline>\<newline>''
        @ ''================================================================================\<newline>''
        @ ''\<newline>''"
  by (simp add: whole_document_def head_lines_def unlines_def example_now example_numbers
      example_emitted_twoline example_relativePath_twoline
      plain_block_def fenced_block_def cut_block_def hashes_def equals_def)

lemma example_pack_twoline:
  "packFiles example_env
     [Uri_file [''proj'', ''a\<newline>2. b'']] =
     Inr (''# Project Files Pack for LLM\<newline># Total files: 1\<newline>''
        @ ''# Generated: 2025-03-08T12:00:00.000Z\<newline>\<newline>''
        @ ''## Files included:\<newline>1. a\<newline>2. b\<newline>\<newline>''
        @ ''================================================================================\<newline>''
        @ ''\<newline>''
        @ ''################################################################################\<newline>''
        @ ''# FILE 1/1: a\<newline>2. b\<newline>''
        @ ''# Size: 0.0 KB | Last modified: 2025-03-08T10:10:00.000Z\<newline>''
        @ ''################################################################################\<newline>''
        @ ''\<newline>x\<newline>\<newline>\<newline>''
        @ ''================================================================================\<newline>''
        @ ''\<newline>'',
          [])"
proof -
  have "length (whole_document example_env
     [Uri_file [''proj'', ''a\<newline>2. b'']])
      \<le> maxLength example_env"
    unfolding example_document_twoline by (simp add: example_env_def)
  from packFiles_fits [OF this] show ?thesis
    by (simp add: example_document_twoline whole_messages_def
      example_emitted_twoline)
qed







lemma example_document_secret:
  "whole_document example_env
     [Uri_file [''proj'', ''secret.txt'']] =
        ''# Project Files Pack for LLM\<newline># Total files: 1\<newline>''
        @ ''# Generated: 2025-03-08T12:00:00.000Z\<newline>\<newline>''
        @ ''## Files included:\<newline>1. secret.txt\<newline>\<newline>''
        @ ''================================================================================\<newline>''
        @ ''\<newline>''"
  by (simp add: whole_document_def head_lines_def unlines_def example_now example_numbers
      example_emitted_secret example_relativePath_secret
      plain_block_def fenced_block_def cut_block_def hashes_def equals_def)

lemma example_pack_secret:
  "packFiles example_env
     [Uri_file [''proj'', ''secret.txt'']] =
     Inr (''# Project Files Pack for LLM\<newline># Total files: 1\<newline>''
        @ ''# Generated: 2025-03-08T12:00:00.000Z\<newline>\<newline>''
        @ ''## Files included:\<newline>1. secret.txt\<newline>\<newline>''
        @ ''================================================================================\<newline>''
        @ ''\<newline>'',
          [ErrorMessage
            (''Error reading file secret.txt: Error: EACCES: permission denied, open ''
               @ [CHR 0x27]
               @ ''/proj/secret.txt''
               @ [CHR 0x27])])"
proof -
  have "length (whole_document example_env
     [Uri_file [''proj'', ''secret.txt'']])
      \<le> maxLength example_env"
    unfolding example_document_secret by (simp add: example_env_def)
  from packFiles_fits [OF this] show ?thesis
    by (simp add: example_document_secret whole_messages_def
      example_emitted_secret)
qed




section \<open>The formatter on the example project\<close>

lemma example_one_line:
  "one_line (now example_env)"
  "one_line ''2025-03-08T09:40:00.000Z''"
  "one_line ''2025-03-08T09:50:00.000Z''"
  by (simp_all add: example_now)



lemma example_head_three:
  "unlines (head_lines example_env
     [Uri_file [''proj'', ''a.py''],
     Uri_file [''proj'', ''secret.txt''],
     Uri_file [''proj'', ''notes.xyz'']]) =
        ''# Project Files Pack for LLM\<newline># Total files: 3\<newline>''
        @ ''# Generated: 2025-03-08T12:00:00.000Z\<newline>\<newline>''
        @ ''## Files included:\<newline>1. a.py\<newline>2. secret.txt\<newline>''
        @ ''3. notes.xyz\<newline>\<newline>''
        @ ''================================================================================\<newline>''
        @ ''\<newline>''"
  by (simp add: head_lines_def unlines_def example_now example_numbers equals_def
      example_relativePath_a example_relativePath_secret example_relativePath_notes)

section \<open>An entry point that cannot be read\<close>

text \<open>
  C3, as stated, fails: an entry point that is a regular file whose content cannot be
  read passes \<^verbatim>\<open>statSync\<close>, so the resolution returns it and the command goes on to
  produce a document.
\<close>

theorem unreadable_file_entry_is_resolved:
  "readFileSync (maxLength example_env) example_root [''proj'', ''secret.txt'']
     = Inl (SystemError EACCES ''open'' ''/proj/secret.txt'')
   \<and> getFilesFromResources example_root [Uri_file [''proj'', ''secret.txt'']]
     = Inr [Uri_file [''proj'', ''secret.txt'']]
   \<and> fst (packForLlm example_env [Uri_file [''proj'', ''secret.txt'']]) \<noteq> None
   \<and> snd (packForLlm example_env [Uri_file [''proj'', ''secret.txt'']])
     = [ProgressReport ''Processing selected resources...'',
        ProgressReport ''Packing 1 files...'',
        ErrorMessage
          (''Error reading file secret.txt: Error: EACCES: permission denied, open ''
           @ [CHR 0x27]
           @ ''/proj/secret.txt''
           @ [CHR 0x27]),
        InformationMessage ''Successfully packed 1 files.'']"
proof -
  have r: "readFileSync (maxLength example_env) example_root [''proj'', ''secret.txt'']
      = Inl (SystemError EACCES ''open'' ''/proj/secret.txt'')"
    by (simp add: readFileSync_def example_lookup_secret)
  have g: "getFilesFromResources example_root [Uri_file [''proj'', ''secret.txt'']]
      = Inr [Uri_file [''proj'', ''secret.txt'']]"
    by code_simp
  have p: "packForLlm example_env [Uri_file [''proj'', ''secret.txt'']]
      = (Some (''# Project Files Pack for LLM\<newline># Total files: 1\<newline>''
               @ ''# Generated: 2025-03-08T12:00:00.000Z\<newline>\<newline>''
               @ ''## Files included:\<newline>1. secret.txt\<newline>\<newline>''
               @ ''================================================================================\<newline>''
               @ ''\<newline>''),
         [ProgressReport ''Processing selected resources...'',
          ProgressReport ''Packing 1 files...'',
          ErrorMessage
            (''Error reading file secret.txt: Error: EACCES: permission denied, open ''
             @ [CHR 0x27]
             @ ''/proj/secret.txt''
             @ [CHR 0x27]),
          InformationMessage ''Successfully packed 1 files.''])"
    by (simp add: packForLlm_def example_env_root g example_pack_secret example_numbers)
  show ?thesis
    unfolding r g p by simp
qed

section \<open>Two runs at different times, on the example\<close>


section \<open>The head of the document, on the example\<close>

text \<open>
  C5, as stated, fails: the display path of a file is written into the table as it is, so
  a file whose name holds a line feed takes two lines of the table. Here a list of one
  file gives a table of two numbered lines.
\<close>

theorem table_line_per_file_fails:
  "relativePath example_env (Uri_file [''proj'', ''a\<newline>2. b'']) = ''a\<newline>2. b''
   \<and> (\<exists>doc. packFiles example_env [Uri_file [''proj'', ''a\<newline>2. b'']] = Inr (doc, [])
          \<and> take 9 (lines doc) =
              [''# Project Files Pack for LLM'',
              ''# Total files: 1'',
              ''# Generated: 2025-03-08T12:00:00.000Z'',
              [],
              ''## Files included:'',
              ''1. a'',
              ''2. b'',
              [],
              ''================================================================================''])"
proof -
  have "take 9 (lines
      (''# Project Files Pack for LLM\<newline># Total files: 1\<newline>''
        @ ''# Generated: 2025-03-08T12:00:00.000Z\<newline>\<newline>''
        @ ''## Files included:\<newline>1. a\<newline>2. b\<newline>\<newline>''
        @ ''================================================================================\<newline>''
        @ ''\<newline>''
        @ ''################################################################################\<newline>''
        @ ''# FILE 1/1: a\<newline>2. b\<newline>''
        @ ''# Size: 0.0 KB | Last modified: 2025-03-08T10:10:00.000Z\<newline>''
        @ ''################################################################################\<newline>''
        @ ''\<newline>x\<newline>\<newline>\<newline>''
        @ ''================================================================================\<newline>''
        @ ''\<newline>'')) =
              [''# Project Files Pack for LLM'',
              ''# Total files: 1'',
              ''# Generated: 2025-03-08T12:00:00.000Z'',
              [],
              ''## Files included:'',
              ''1. a'',
              ''2. b'',
              [],
              ''================================================================================'']"
    by code_simp
  with example_pack_twoline example_relativePath_twoline show ?thesis
    by blast
qed

theorem document_header_witness:
  "length (unlines (head_lines example_env
      [Uri_file [''proj'', ''a.py''],
      Uri_file [''proj'', ''secret.txt''],
      Uri_file [''proj'', ''notes.xyz'']]))
     \<le> maxLength example_env
   \<and> (\<exists>rest shown. packFiles example_env
      [Uri_file [''proj'', ''a.py''],
      Uri_file [''proj'', ''secret.txt''],
      Uri_file [''proj'', ''notes.xyz'']] =
        Inr ((''# Project Files Pack for LLM\<newline># Total files: 3\<newline>''
              @ ''# Generated: 2025-03-08T12:00:00.000Z\<newline>\<newline>''
              @ ''## Files included:\<newline>1. a.py\<newline>2. secret.txt\<newline>''
              @ ''3. notes.xyz\<newline>\<newline>''
              @ ''================================================================================\<newline>''
              @ ''\<newline>'')
             @ rest, shown))
   \<and> one_line (now example_env)
   \<and> (\<exists>doc shown. packFiles example_env
      [Uri_file [''proj'', ''a.py''],
      Uri_file [''proj'', ''secret.txt''],
      Uri_file [''proj'', ''notes.xyz'']] = Inr (doc, shown)
        \<and> take 11 (lines doc) =
            [''# Project Files Pack for LLM'',
            ''# Total files: 3'',
            ''# Generated: 2025-03-08T12:00:00.000Z'',
            [],
            ''## Files included:'',
            ''1. a.py'',
            ''2. secret.txt'',
            ''3. notes.xyz'',
            [],
            ''================================================================================'',
            []])"
proof -
  let ?files = "[Uri_file [''proj'', ''a.py''],
                Uri_file [''proj'', ''secret.txt''],
                Uri_file [''proj'', ''notes.xyz'']]"
  have fits: "length (unlines (head_lines example_env ?files)) \<le> maxLength example_env"
    unfolding example_head_three by (simp add: example_env_def)
  have paths: "\<forall>u\<in>set ?files. one_line (relativePath example_env u)"
    by (simp add: example_relativePath_a example_relativePath_secret
        example_relativePath_notes)
  obtain doc shown where p: "packFiles example_env ?files = Inr (doc, shown)"
    using example_pack_three by blast
  from document_header [of example_env ?files doc shown]
  have 1: "length (unlines (head_lines example_env ?files)) \<le> maxLength example_env \<longrightarrow>
      (\<exists>rest shown. packFiles example_env ?files
         = Inr (unlines (head_lines example_env ?files) @ rest, shown))"
    and 2: "packFiles example_env ?files = Inr (doc, shown) \<and> one_line (now example_env)
        \<and> (\<forall>u\<in>set ?files. one_line (relativePath example_env u)) \<longrightarrow>
      take (length ?files + 8) (lines doc) =
        [''# Project Files Pack for LLM'',
         ''# Total files: '' @ show_nat (length ?files),
         ''# Generated: '' @ now example_env,
         [],
         ''## Files included:'']
        @ map (\<lambda>(k, u). show_nat (k + 1) @ ''. '' @ relativePath example_env u)
            (enumerate 0 ?files)
        @ [[],
           ''================================================================================'',
           []]"
    by blast+
  from 1 fits have a: "\<exists>rest shown. packFiles example_env ?files
         = Inr (unlines (head_lines example_env ?files) @ rest, shown)"
    by (rule mp)
  from 2 p example_one_line(1) paths have "take (length ?files + 8) (lines doc) =
        [''# Project Files Pack for LLM'',
         ''# Total files: '' @ show_nat (length ?files),
         ''# Generated: '' @ now example_env,
         [],
         ''## Files included:'']
        @ map (\<lambda>(k, u). show_nat (k + 1) @ ''. '' @ relativePath example_env u)
            (enumerate 0 ?files)
        @ [[],
           ''================================================================================'',
           []]"
    by blast
  then have b: "take 11 (lines doc) =
            [''# Project Files Pack for LLM'',
            ''# Total files: 3'',
            ''# Generated: 2025-03-08T12:00:00.000Z'',
            [],
            ''## Files included:'',
            ''1. a.py'',
            ''2. secret.txt'',
            ''3. notes.xyz'',
            [],
            ''================================================================================'',
            []]"
    by (simp add: example_now example_numbers example_relativePath_a
        example_relativePath_secret example_relativePath_notes)
  from fits a [unfolded example_head_three] example_one_line(1) p b show ?thesis
    by blast
qed

section \<open>Files that cannot be read, on the example\<close>

text \<open>
  C2, as stated, fails. A failure is shown with \<^verbatim>\<open>showErrorMessage\<close>, as an error and not
  as a warning. And the \<^verbatim>\<open>try\<close> holds more than the two reads: the first two lines of the
  block are appended before the modification time is printed, and \<^verbatim>\<open>toISOString\<close> throws
  on a time that is not valid. Such a file is read, yet it is reported as a failure, its
  content is left out, and the two lines of its header stay in the document.
\<close>

theorem readable_file_is_cut:
  "try_read example_env (Uri_file [''proj'', ''late.rs''])
     = Inr (''fn late() {}'',
            \<lparr>isDirectory = False, size_stat = 12, mtime = InvalidDate\<rparr>)
   \<and> packFiles example_env
     [Uri_file [''proj'', ''secret.txt''],
     Uri_file [''proj'', ''late.rs'']] =
     Inr (''# Project Files Pack for LLM\<newline># Total files: 2\<newline>''
          @ ''# Generated: 2025-03-08T12:00:00.000Z\<newline>\<newline>''
          @ ''## Files included:\<newline>1. secret.txt\<newline>2. late.rs\<newline>\<newline>''
          @ ''================================================================================\<newline>''
          @ ''\<newline>''
          @ ''################################################################################\<newline>''
          @ ''# FILE 2/2: late.rs\<newline>'',
          [ErrorMessage
            (''Error reading file secret.txt: Error: EACCES: permission denied, open ''
               @ [CHR 0x27]
               @ ''/proj/secret.txt''
               @ [CHR 0x27]),
          ErrorMessage
            (''Error reading file late.rs: RangeError: Invalid time value'')])"
  using example_try_read_late example_pack_cut by blast

theorem read_failure_is_skipped_witness:
  "length (whole_document example_env
      [Uri_file [''proj'', ''a.py''],
      Uri_file [''proj'', ''secret.txt''],
      Uri_file [''proj'', ''notes.xyz'']])
     \<le> maxLength example_env
   \<and> try_read example_env (Uri_file [''proj'', ''secret.txt''])
     = Inl (SystemError EACCES ''open'' ''/proj/secret.txt'')
   \<and> packFiles example_env
     [Uri_file [''proj'', ''a.py''],
     Uri_file [''proj'', ''secret.txt''],
     Uri_file [''proj'', ''notes.xyz'']] =
     Inr (''# Project Files Pack for LLM\<newline># Total files: 3\<newline>''
          @ ''# Generated: 2025-03-08T12:00:00.000Z\<newline>\<newline>''
          @ ''## Files included:\<newline>1. a.py\<newline>2. secret.txt\<newline>''
          @ ''3. notes.xyz\<newline>\<newline>''
          @ ''================================================================================\<newline>''
          @ ''\<newline>''
          @ ''################################################################################\<newline>''
          @ ''# FILE 1/3: a.py\<newline>''
          @ ''# Size: 2.0 KB | Last modified: 2025-03-08T09:00:00.000Z\<newline>''
          @ ''# Language: python\<newline>''
          @ ''################################################################################\<newline>''
          @ ''\<newline>''
          @ [CHR 0x60, CHR 0x60, CHR 0x60]
          @ ''python\<newline>print(1)\<newline>''
          @ [CHR 0x60, CHR 0x60, CHR 0x60]
          @ ''\<newline>\<newline>\<newline>''
          @ ''================================================================================\<newline>''
          @ ''\<newline>''
          @ ''################################################################################\<newline>''
          @ ''# FILE 3/3: notes.xyz\<newline>''
          @ ''# Size: 0.0 KB | Last modified: 2025-03-08T09:50:00.000Z\<newline>''
          @ ''################################################################################\<newline>''
          @ ''\<newline>abc\<newline>\<newline>\<newline>''
          @ ''================================================================================\<newline>''
          @ ''\<newline>'',
          [ErrorMessage
            (''Error reading file secret.txt: Error: EACCES: permission denied, open ''
               @ [CHR 0x27]
               @ ''/proj/secret.txt''
               @ [CHR 0x27])])"
proof -
  let ?files = "[Uri_file [''proj'', ''a.py''],
                Uri_file [''proj'', ''secret.txt''],
                Uri_file [''proj'', ''notes.xyz'']]"
  let ?stamp = "\<lambda>u. if u = Uri_file [''proj'', ''a.py'']
      then ''2025-03-08T09:00:00.000Z'' else ''2025-03-08T09:50:00.000Z''"
  have fits: "length (whole_document example_env ?files) \<le> maxLength example_env"
    unfolding example_document_three by (simp add: example_env_def)
  have stamps: "\<forall>u\<in>set ?files. \<forall>content fileStats.
      try_read example_env u = Inr (content, fileStats) \<longrightarrow> mtime fileStats = Date (?stamp u)"
    by (auto simp: example_try_read_a example_try_read_secret example_try_read_notes)
  from read_failure_is_skipped [of example_env ?files ?stamp, OF fits stamps]
  have "packFiles example_env ?files =
     Inr (''# Project Files Pack for LLM\<newline># Total files: 3\<newline>''
          @ ''# Generated: 2025-03-08T12:00:00.000Z\<newline>\<newline>''
          @ ''## Files included:\<newline>1. a.py\<newline>2. secret.txt\<newline>''
          @ ''3. notes.xyz\<newline>\<newline>''
          @ ''================================================================================\<newline>''
          @ ''\<newline>''
          @ ''################################################################################\<newline>''
          @ ''# FILE 1/3: a.py\<newline>''
          @ ''# Size: 2.0 KB | Last modified: 2025-03-08T09:00:00.000Z\<newline>''
          @ ''# Language: python\<newline>''
          @ ''################################################################################\<newline>''
          @ ''\<newline>''
          @ [CHR 0x60, CHR 0x60, CHR 0x60]
          @ ''python\<newline>print(1)\<newline>''
          @ [CHR 0x60, CHR 0x60, CHR 0x60]
          @ ''\<newline>\<newline>\<newline>''
          @ ''================================================================================\<newline>''
          @ ''\<newline>''
          @ ''################################################################################\<newline>''
          @ ''# FILE 3/3: notes.xyz\<newline>''
          @ ''# Size: 0.0 KB | Last modified: 2025-03-08T09:50:00.000Z\<newline>''
          @ ''################################################################################\<newline>''
          @ ''\<newline>abc\<newline>\<newline>\<newline>''
          @ ''================================================================================\<newline>''
          @ ''\<newline>'',
          [ErrorMessage
            (''Error reading file secret.txt: Error: EACCES: permission denied, open ''
               @ [CHR 0x27]
               @ ''/proj/secret.txt''
               @ [CHR 0x27])])"
    by (simp add: example_head_three example_try_read_a example_try_read_secret
        example_try_read_notes example_relativePath_a example_relativePath_secret
        example_relativePath_notes example_language_path_a example_language_path_notes
        example_size_KB example_numbers plain_block_def fenced_block_def hashes_def
        equals_def quoted_def)
  with fits example_try_read_secret show ?thesis
    by blast
qed

section \<open>The language line and the fence, on the example\<close>



end
